theory Spec2Isabelle
  imports Complex_Main "HOL-Library.AList" "HOL-Library.Product_Lexorder"
begin

section \<open>Python values\<close>

text \<open>
  The front end passes JSON-shaped Python values around: request payloads, the answers of
  the two services and the columns of the history table. A dictionary is an association
  list in insertion order (Python dictionaries keep it); assigning to a key that is
  already there keeps the key's position, which is what \<open>AList.update\<close> does.
  A Python float is modelled by the rational it denotes; the only float the code
  computes itself is \<open>num_links / 4\<close>, which is exact in binary floating point.
\<close>

datatype pyval =
    PNone
  | PBool bool
  | PInt int
  | PFloat rat
  | PStr string
  | PList "pyval list"
  | PDict "(string \<times> pyval) list"

type_synonym pydict = "(string \<times> pyval) list"

text \<open>Truth value testing (\<open>if v\<close>, \<open>v or d\<close>, \<open>not v\<close>).\<close>

fun truthy :: "pyval \<Rightarrow> bool" where
  "truthy PNone = False"
| "truthy (PBool b) = b"
| "truthy (PInt i) = (i \<noteq> 0)"
| "truthy (PFloat r) = (r \<noteq> 0)"
| "truthy (PStr s) = (s \<noteq> [])"
| "truthy (PList vs) = (vs \<noteq> [])"
| "truthy (PDict d) = (d \<noteq> [])"

definition py_or :: "pyval \<Rightarrow> pyval \<Rightarrow> pyval" where
  "py_or a b = (if truthy a then a else b)"

text \<open>\<open>d.get(k, default)\<close> on a dictionary.\<close>

definition dict_get :: "pydict \<Rightarrow> string \<Rightarrow> pyval \<Rightarrow> pyval" where
  "dict_get d k dflt = (case map_of d k of None \<Rightarrow> dflt | Some v \<Rightarrow> v)"

definition has_key :: "pydict \<Rightarrow> string \<Rightarrow> bool" where
  "has_key d k = (map_of d k \<noteq> None)"

text \<open>
  Exceptions. The code distinguishes \<open>requests.Timeout\<close> from every other
  \<open>Exception\<close>; the latter carries the text that \<open>str(e)\<close> yields. For an
  exception raised by the interpreter itself the text is abbreviated to the class name.
\<close>

datatype exn = Timeout | Exception string

fun str_of_exn :: "exn \<Rightarrow> string" where
  "str_of_exn Timeout = ''Timeout''"
| "str_of_exn (Exception m) = m"

definition AttributeError :: exn where "AttributeError = Exception ''AttributeError''"
definition TypeError :: exn where "TypeError = Exception ''TypeError''"
definition KeyError :: exn where "KeyError = Exception ''KeyError''"
definition IntegrityError :: exn where "IntegrityError = Exception ''IntegrityError''"
definition InterfaceError :: exn where "InterfaceError = Exception ''InterfaceError''"

text \<open>\<open>v.get(k, default)\<close> on an arbitrary value: only a dictionary has \<open>get\<close>.\<close>

fun py_get :: "pyval \<Rightarrow> string \<Rightarrow> pyval \<Rightarrow> exn + pyval" where
  "py_get (PDict d) k dflt = Inr (dict_get d k dflt)"
| "py_get _ k dflt = Inl AttributeError"

text \<open>\<open>v[0]\<close>: the first element of a list, the first character of a string; a
  dictionary of this model has string keys only, so the key \<open>0\<close> is missing.\<close>

fun py_first :: "pyval \<Rightarrow> exn + pyval" where
  "py_first (PList []) = Inl (Exception ''IndexError'')"
| "py_first (PList (v # vs)) = Inr v"
| "py_first (PStr []) = Inl (Exception ''IndexError'')"
| "py_first (PStr (c # cs)) = Inr (PStr [c])"
| "py_first (PDict d) = Inl KeyError"
| "py_first _ = Inl TypeError"

text \<open>\<open>len(v)\<close>.\<close>

fun py_len :: "pyval \<Rightarrow> exn + nat" where
  "py_len (PStr s) = Inr (length s)"
| "py_len (PList vs) = Inr (length vs)"
| "py_len (PDict d) = Inr (length d)"
| "py_len _ = Inl TypeError"

text \<open>\<open>v[:n]\<close> for a non-negative \<open>n\<close>.\<close>

fun py_take :: "nat \<Rightarrow> pyval \<Rightarrow> exn + pyval" where
  "py_take n (PStr s) = Inr (PStr (take n s))"
| "py_take n (PList vs) = Inr (PList (take n vs))"
| "py_take n _ = Inl TypeError"

text \<open>Sequencing of steps that may raise.\<close>

definition bind :: "exn + 'a \<Rightarrow> ('a \<Rightarrow> exn + 'b) \<Rightarrow> exn + 'b" where
  "bind m f = (case m of Inl e \<Rightarrow> Inl e | Inr v \<Rightarrow> f v)"

section \<open>Strings\<close>

text \<open>
  A Python \<open>str\<close> is a sequence of code points. The model covers the code points
  U+0000 to U+00FF, one \<open>char\<close> each, and classifies them as Python does:
  \<open>str.isspace\<close> (also the class \<open>\s\<close> of \<open>re\<close> on a \<open>str\<close> pattern) and
  \<open>str.isdigit\<close>, which accepts the superscript digits U+00B2, U+00B3 and U+00B9
  besides \<open>0\<close> to \<open>9\<close>.
\<close>

definition py_isspace :: "char \<Rightarrow> bool" where
  "py_isspace c = ((of_char c :: nat) \<in> {9, 10, 11, 12, 13, 28, 29, 30, 31, 32, 133, 160})"

definition py_isdigit :: "char \<Rightarrow> bool" where
  "py_isdigit c = (let n = (of_char c :: nat) in (48 \<le> n \<and> n \<le> 57) \<or> n = 178 \<or> n = 179 \<or> n = 185)"

definition ascii_digit :: "char \<Rightarrow> bool" where
  "ascii_digit c = (let n = (of_char c :: nat) in 48 \<le> n \<and> n \<le> 57)"

definition ascii_letter :: "char \<Rightarrow> bool" where
  "ascii_letter c = (let n = (of_char c :: nat) in (65 \<le> n \<and> n \<le> 90) \<or> (97 \<le> n \<and> n \<le> 122))"

definition strip :: "string \<Rightarrow> string" where
  "strip s = rev (dropWhile py_isspace (rev (dropWhile py_isspace s)))"

definition isdigit :: "string \<Rightarrow> bool" where
  "isdigit s = (s \<noteq> [] \<and> list_all py_isdigit s)"

fun str_of_nat :: "nat \<Rightarrow> string" where
  "str_of_nat n =
     (if n < 10 then [char_of (48 + n)]
      else str_of_nat (n div 10) @ [char_of (48 + n mod 10)])"

definition str_of_int :: "int \<Rightarrow> string" where
  "str_of_int i = (if i < 0 then CHR ''-'' # str_of_nat (nat (- i)) else str_of_nat (nat i))"

text \<open>\<open>v.strip()\<close> on an arbitrary value: only a string has \<open>strip\<close>.\<close>

fun py_strip :: "pyval \<Rightarrow> exn + string" where
  "py_strip (PStr s) = Inr (strip s)"
| "py_strip _ = Inl AttributeError"

section \<open>Form validation (app\_with\_progress.py)\<close>

text \<open>
  \<open>validate_email\<close> matches
  \<^verbatim>\<open>^[a-zA-Z0-9._%+-]+@[a-zA-Z0-9.-]+\.[a-zA-Z]{2,}$\<close> with \<open>re.match\<close>.
  The local part cannot contain \<open>@\<close>, so it ends at the first one; the last label
  cannot contain a dot, so it starts after the last one; \<open>$\<close> also matches just before
  a final newline.
\<close>

definition local_char :: "char \<Rightarrow> bool" where
  "local_char c = (ascii_letter c \<or> ascii_digit c \<or> c \<in> set ''._%+-'')"

definition domain_char :: "char \<Rightarrow> bool" where
  "domain_char c = (ascii_letter c \<or> ascii_digit c \<or> c \<in> set ''.-'')"

definition domain_match :: "string \<Rightarrow> bool" where
  "domain_match r =
     (let tld = rev (takeWhile (\<lambda>c. c \<noteq> CHR ''.'') (rev r));
          rest = rev (dropWhile (\<lambda>c. c \<noteq> CHR ''.'') (rev r))
      in rest \<noteq> [] \<and> butlast rest \<noteq> [] \<and> list_all domain_char (butlast rest)
         \<and> 2 \<le> length tld \<and> list_all ascii_letter tld)"

definition email_match :: "string \<Rightarrow> bool" where
  "email_match s =
     (let l = takeWhile (\<lambda>c. c \<noteq> CHR ''@'') s;
          r = drop (Suc (length l)) s
      in l \<noteq> [] \<and> list_all local_char l \<and> length l < length s
         \<and> (domain_match r \<or> (r \<noteq> [] \<and> last r = CHR 10 \<and> domain_match (butlast r))))"

definition validate_email :: "string \<Rightarrow> bool \<times> string" where
  "validate_email email =
     (if email = [] then (True, [])
      else if email_match email then (True, [])
      else (False, ''Invalid email format''))"

definition separator :: "char \<Rightarrow> bool" where
  "separator c = (py_isspace c \<or> c = CHR ''-'' \<or> c = CHR ''('' \<or> c = CHR '')'' \<or> c = CHR ''+'')"

definition validate_phone :: "string \<Rightarrow> bool \<times> string" where
  "validate_phone phone =
     (if phone = [] then (True, [])
      else let clean_phone = filter (\<lambda>c. \<not> separator c) phone
           in if 7 \<le> length clean_phone \<and> isdigit clean_phone then (True, [])
              else (False, ''Invalid phone format (must be 7+ digits)''))"

definition validate_cv_jd :: "string \<Rightarrow> string \<Rightarrow> bool \<times> string" where
  "validate_cv_jd cv_text jd_text =
     (if cv_text = [] \<or> length (strip cv_text) < 20
        then (False, ''CV must be at least 20 characters'')
      else if jd_text = [] \<or> length (strip jd_text) < 20
        then (False, ''Job Description must be at least 20 characters'')
      else (True, []))"

definition validate_candidate_name :: "string \<Rightarrow> bool \<times> string" where
  "validate_candidate_name name =
     (if name = [] \<or> length (strip name) < 2
        then (False, ''Candidate name is required (at least 2 characters)'')
      else (True, []))"

section \<open>Payload builder (app\_with\_progress.py)\<close>

text \<open>The link fields of the form are strings like the others.\<close>

type_synonym url = string

definition link_list :: "url \<Rightarrow> pyval" where
  "link_list url = PList (if url \<noteq> [] then [PStr url] else [])"

fun list_len :: "pyval \<Rightarrow> nat" where
  "list_len (PList vs) = length vs"
| "list_len _ = 0"

definition build_social_profiles :: "url \<Rightarrow> url \<Rightarrow> url \<Rightarrow> url \<Rightarrow> url \<Rightarrow> pydict" where
  "build_social_profiles github_url linkedin_url portfolio_url facebook_url other_social =
     [(''github'', link_list github_url),
      (''linkedin'', link_list linkedin_url),
      (''portfolio'', link_list portfolio_url),
      (''facebook'', link_list facebook_url),
      (''other'', link_list other_social)]"

definition num_links_of :: "pydict \<Rightarrow> nat" where
  "num_links_of social_profiles = length (filter truthy (map snd social_profiles))"

definition prepare_payload ::
  "string \<Rightarrow> string \<Rightarrow> string \<Rightarrow> string \<Rightarrow> string \<Rightarrow> string \<Rightarrow>
   url \<Rightarrow> url \<Rightarrow> url \<Rightarrow> url \<Rightarrow> url \<Rightarrow> pydict" where
  "prepare_payload jd_text cv_text candidate_name candidate_id candidate_email candidate_phone
       github_url linkedin_url portfolio_url facebook_url other_social =
     (let social_profiles =
            build_social_profiles github_url linkedin_url portfolio_url facebook_url other_social;
          num_links = num_links_of social_profiles;
          presence_score = min (of_nat num_links / 4) (1 :: rat);
          social_profiles = AList.update ''presence_score'' (PFloat presence_score) social_profiles;
          social_profiles = AList.update ''total_links''
              (PInt (int (sum_list (map (list_len \<circ> snd) social_profiles)))) social_profiles
      in [(''jd_title'', PStr ''Candidate Evaluation''),
          (''jd_description'', PStr jd_text),
          (''candidate_id'', py_or (PStr candidate_id) (PStr ''auto'')),
          (''candidate_name'', py_or (PStr candidate_name) (PStr ''Unknown'')),
          (''candidate_email'', py_or (PStr candidate_email) (PStr [])),
          (''candidate_phone'', py_or (PStr candidate_phone) (PStr [])),
          (''cv_text'', PStr cv_text),
          (''include_shap'', PBool True),
          (''include_social_weighting'', PBool (0 < num_links)),
          (''social_media_profiles'', PDict social_profiles)])"

section \<open>History store (db\_manager.py)\<close>

text \<open>
  The table \<open>search_history\<close>. \<open>id\<close> is \<open>INTEGER PRIMARY KEY AUTOINCREMENT\<close>:
  the rowid, one more than the largest rowid ever used, which SQLite keeps in
  \<open>sqlite_sequence\<close>. \<open>timestamp\<close> defaults to \<open>CURRENT_TIMESTAMP\<close>, the clock of
  the store at a resolution of one second; it is modelled as a number of seconds, whose
  order is the order of the stored text. The JSON text columns are modelled by the values
  they encode. The rows are kept in rowid order, the order of a table scan.
\<close>

record search_record =
  col_id :: int
  col_timestamp :: nat
  col_candidate_name :: pyval
  col_job_title :: pyval
  col_match_score :: pyval
  col_recommendation :: pyval
  col_social_profiles :: pyval
  col_flowise_response :: "pyval option"
  col_notes :: pyval

record database =
  search_history :: "search_record list"
  sqlite_sequence :: int

definition init_database :: database where
  "init_database = \<lparr>search_history = [], sqlite_sequence = 0\<rparr>"

text \<open>The values \<open>sqlite3\<close> binds to a parameter: \<open>None\<close>, numbers and strings.\<close>

fun sql_bindable :: "pyval \<Rightarrow> bool" where
  "sql_bindable (PList vs) = False"
| "sql_bindable (PDict d) = False"
| "sql_bindable _ = True"

text \<open>\<open>LIMIT n\<close>: a negative \<open>n\<close> means no limit.\<close>

definition sql_limit :: "int \<Rightarrow> 'a list \<Rightarrow> 'a list" where
  "sql_limit n xs = (if n < 0 then xs else take (nat n) xs)"

text \<open>
  \<open>ORDER BY timestamp\<close> has no second key. SQLite scans the table in rowid order and
  its sorter leaves rows of equal key in the order of the scan, in both directions, so
  the two orderings are stable sorts of the rowid-ordered rows.
\<close>

definition order_by_timestamp_asc :: "search_record list \<Rightarrow> search_record list" where
  "order_by_timestamp_asc rows = sort_key col_timestamp rows"

definition order_by_timestamp_desc :: "search_record list \<Rightarrow> search_record list" where
  "order_by_timestamp_desc rows = sort_key (\<lambda>r. - int (col_timestamp r)) rows"

definition next_rowid :: "database \<Rightarrow> int" where
  "next_rowid db = 1 + fold max (map col_id (search_history db)) (sqlite_sequence db)"

definition save_search_result ::
  "int \<Rightarrow> nat \<Rightarrow> pyval \<Rightarrow> pyval \<Rightarrow> pyval \<Rightarrow> pyval \<Rightarrow> pyval \<Rightarrow> pyval \<Rightarrow> pyval \<Rightarrow>
   database \<Rightarrow> exn + (int \<times> database)" where
  "save_search_result MAX_RECORDS now candidate_name job_title match_score recommendation
       social_profiles flowise_response notes db =
     (if \<not> (sql_bindable candidate_name \<and> sql_bindable job_title \<and> sql_bindable match_score
             \<and> sql_bindable recommendation \<and> sql_bindable notes)
        then Inl InterfaceError
      else if candidate_name = PNone \<or> job_title = PNone then Inl IntegrityError
      else
        let record_id = next_rowid db;
            row = \<lparr>col_id = record_id, col_timestamp = now,
                   col_candidate_name = candidate_name, col_job_title = job_title,
                   col_match_score = match_score, col_recommendation = recommendation,
                   col_social_profiles = social_profiles,
                   col_flowise_response =
                     (if truthy flowise_response then Some flowise_response else None),
                   col_notes = notes\<rparr>;
            rows = search_history db @ [row];
            total_records = int (length rows);
            rows =
              (if total_records > MAX_RECORDS then
                 let oldest = map col_id
                       (sql_limit (total_records - MAX_RECORDS) (order_by_timestamp_asc rows))
                 in filter (\<lambda>r. col_id r \<notin> set oldest) rows
               else rows)
        in Inr (record_id, \<lparr>search_history = rows, sqlite_sequence = record_id\<rparr>))"

definition row_dict :: "search_record \<Rightarrow> pydict" where
  "row_dict r =
     [(''id'', PInt (col_id r)),
      (''timestamp'', PInt (int (col_timestamp r))),
      (''candidate_name'', col_candidate_name r),
      (''job_title'', col_job_title r),
      (''match_score'', col_match_score r),
      (''recommendation'', col_recommendation r),
      (''social_profiles'', col_social_profiles r),
      (''notes'', col_notes r)]"

definition select_recent :: "int \<Rightarrow> database \<Rightarrow> search_record list" where
  "select_recent MAX_RECORDS db =
     sql_limit MAX_RECORDS (order_by_timestamp_desc (search_history db))"

definition get_search_history :: "int \<Rightarrow> database \<Rightarrow> pydict list" where
  "get_search_history MAX_RECORDS db = map row_dict (select_recent MAX_RECORDS db)"

definition clear_all_search_history :: "database \<Rightarrow> database" where
  "clear_all_search_history db = db\<lparr>search_history := []\<rparr>"

text \<open>
  \<open>delete_search_record\<close> answers \<open>True\<close> once the \<open>DELETE\<close> statement has run;
  \<open>False\<close> is its answer to an exception of the database layer, which this model of
  the table does not raise.
\<close>

definition delete_search_record :: "int \<Rightarrow> database \<Rightarrow> bool \<times> database" where
  "delete_search_record record_id db =
     (True, db\<lparr>search_history := filter (\<lambda>r. col_id r \<noteq> record_id) (search_history db)\<rparr>)"

definition record_ids :: "database \<Rightarrow> int list" where
  "record_ids db = map col_id (search_history db)"

definition listed_ids :: "int \<Rightarrow> database \<Rightarrow> pyval list" where
  "listed_ids MAX_RECORDS db = map (\<lambda>d. dict_get d ''id'' PNone) (get_search_history MAX_RECORDS db)"

text \<open>The rows of a table have distinct rowids and a scan yields them in ascending order.\<close>

definition rowid_ordered :: "database \<Rightarrow> bool" where
  "rowid_ordered db = sorted_wrt (<) (map col_id (search_history db))"

text \<open>A row is older than another one by timestamp, then by id.\<close>

definition age_key :: "search_record \<Rightarrow> nat \<times> int" where
  "age_key r = (col_timestamp r, col_id r)"

text \<open>The order of a listing: later timestamp first, then lower id first.\<close>

definition listing_key :: "search_record \<Rightarrow> int \<times> int" where
  "listing_key r = (- int (col_timestamp r), col_id r)"

text \<open>
  A run of saves for the scenarios: each entry is the clock reading of the save and the
  candidate name; the other columns do not matter to the store.
\<close>

fun run_saves :: "int \<Rightarrow> (nat \<times> string) list \<Rightarrow> database \<Rightarrow> database" where
  "run_saves MAX_RECORDS [] db = db"
| "run_saves MAX_RECORDS ((now, name) # rest) db =
     (case save_search_result MAX_RECORDS now (PStr name) (PStr ''Job Position'')
             (PFloat (1 / 2)) (PStr ''Match score: 50.0%'') (PDict []) (PDict []) (PStr []) db of
        Inl e \<Rightarrow> run_saves MAX_RECORDS rest db
      | Inr (record_id, db') \<Rightarrow> run_saves MAX_RECORDS rest db')"


section \<open>External services and rendering\<close>

text \<open>
  What a \<open>requests.post\<close> comes back with: it raises, or it returns a response with a
  status code, a body text and a \<open>json()\<close> that raises or yields the decoded body;
  both services answer with a JSON object. One run of a pipeline sends at most one
  request to each service, so the environment holds one answer for each, the reading of
  the store's clock at the save and the wall clock text of the note.
\<close>

datatype http_reply = Raises exn | Response int string "exn + pydict"

record environment =
  rank_reply :: http_reply
  flowise_reply :: http_reply
  clock :: nat
  wall_clock :: string

text \<open>
  What a run does to the outside: the two kinds of request, the call of the social
  evaluation client and the call of \<open>save_search_result\<close> with its arguments.
\<close>

datatype event =
    RankingRequest pydict
  | FlowiseEvaluation
  | FlowiseRequest pydict
  | SaveSearchResult "pyval list"

text \<open>
  \<open>f"{v:.N%}"\<close>: a number (a \<open>bool\<close> is one) times 100, rounded half to even to \<open>N\<close>
  places; any other value raises.
\<close>

fun numeric_value :: "pyval \<Rightarrow> rat option" where
  "numeric_value (PBool b) = Some (if b then 1 else 0)"
| "numeric_value (PInt i) = Some (of_int i)"
| "numeric_value (PFloat r) = Some r"
| "numeric_value _ = None"

definition round_half_even :: "rat \<Rightarrow> int" where
  "round_half_even y =
     (let f = \<lfloor>y\<rfloor>; r = y - of_int f
      in if r < 1 / 2 then f else if 1 / 2 < r then f + 1 else if even f then f else f + 1)"

definition format_percent :: "nat \<Rightarrow> pyval \<Rightarrow> exn + string" where
  "format_percent digits v =
     (case numeric_value v of
        None \<Rightarrow> Inl (case v of PStr s \<Rightarrow> Exception ''ValueError'' | _ \<Rightarrow> TypeError)
      | Some x \<Rightarrow>
          let ds = str_of_nat (nat (round_half_even (\<bar>x\<bar> * 100 * 10 ^ digits)));
              ds = replicate (Suc digits - length ds) (CHR ''0'') @ ds;
              whole = take (length ds - digits) ds;
              frac = drop (length ds - digits) ds
          in Inr ((if x < 0 then ''-'' else []) @ whole
                  @ (if digits = 0 then [] else CHR ''.'' # frac) @ ''%''))"

text \<open>
  Rendering is outside the pipelines' logic and is taken as given: the markdown of
  \<open>format_results\<close> for a response without an error and the HTML report of
  \<open>format_flowise_output\<close>, which both catch every exception of their own;
  \<open>json.dumps\<close> and \<open>str\<close>; the explanation text and the social evaluation text of
  app\_gdpr\_compliant.py and the markdown of \<open>format_search_history_display\<close>, which
  raise on values of the wrong type; and \<open>FloweiseCandidateQuery.build_query\<close>, which is
  imported from the back end.
\<close>

record rendering =
  render_results :: "pydict \<Rightarrow> string \<times> string \<times> string"
  format_flowise_output :: "pydict \<Rightarrow> pydict \<Rightarrow> string"
  json_dumps :: "pyval \<Rightarrow> string"
  py_str :: "pyval \<Rightarrow> string"
  render_explanation :: "pydict \<Rightarrow> exn + string"
  render_flowise_evaluation :: "pyval \<Rightarrow> exn + string"
  render_history :: "pydict list \<Rightarrow> exn + string"
  build_query :: "pyval list \<Rightarrow> string"

text \<open>\<open>k in v\<close> for a string \<open>k\<close>.\<close>

fun substring :: "string \<Rightarrow> string \<Rightarrow> bool" where
  "substring xs [] = (xs = [])"
| "substring xs (y # ys) = (take (length xs) (y # ys) = xs \<or> substring xs ys)"

fun py_contains :: "string \<Rightarrow> pyval \<Rightarrow> exn + bool" where
  "py_contains k (PDict d) = Inr (has_key d k)"
| "py_contains k (PList vs) = Inr (PStr k \<in> set vs)"
| "py_contains k (PStr s) = Inr (substring k s)"
| "py_contains k _ = Inl TypeError"

section \<open>The pipeline of app\_with\_progress.py\<close>

text \<open>
  The messages of the user interface are kept without the pictographs in front of them,
  which lie outside the code points of the model.
\<close>

definition validate_and_submit ::
  "string \<Rightarrow> string \<Rightarrow> string \<Rightarrow> string \<Rightarrow> string \<Rightarrow> string \<Rightarrow>
   url \<Rightarrow> url \<Rightarrow> url \<Rightarrow> url \<Rightarrow> url \<Rightarrow> string \<times> string \<times> pydict \<times> string" where
  "validate_and_submit cand_name cand_id cand_email cand_phone jd_t cv_t gh li port fb other =
     (let (valid_name, error_name) = validate_candidate_name cand_name in
      if \<not> valid_name then ([], error_name, [], [])
      else let (valid_cv_jd, error_cv_jd) = validate_cv_jd cv_t jd_t in
      if \<not> valid_cv_jd then ([], error_cv_jd, [], [])
      else let (valid_email, error_email) = validate_email cand_email in
      if \<not> valid_email then ([], error_email, [], [])
      else let (valid_phone, error_phone) = validate_phone cand_phone in
      if \<not> valid_phone then ([], error_phone, [], [])
      else ([], ''All fields valid! Processing...'',
            prepare_payload jd_t cv_t cand_name cand_id cand_email cand_phone gh li port fb other,
            []))"

fun ranking_error :: "exn \<Rightarrow> pydict" where
  "ranking_error Timeout = [(''error'', PStr ''Request timeout (5 minutes exceeded)'')]"
| "ranking_error (Exception m) = [(''error'', PStr (''Error calling API: '' @ m))]"

text \<open>
  Both \<open>execute_ranking\<close> and \<open>call_ranking_api\<close> log the lengths of the two texts of
  the payload before anything else; \<open>len\<close> raises when a text has no length.
\<close>

definition logged_lengths :: "pydict \<Rightarrow> exn + nat" where
  "logged_lengths payload =
     bind (py_len (dict_get payload ''cv_text'' (PStr [])))
       (\<lambda>_. py_len (dict_get payload ''jd_description'' (PStr [])))"

text \<open>\<open>call_ranking_api\<close>: the whole body is inside \<open>try\<close>.\<close>

definition call_ranking_api :: "environment \<Rightarrow> pydict \<Rightarrow> pydict \<times> event list" where
  "call_ranking_api env payload =
     (case logged_lengths payload of
        Inl e \<Rightarrow> (ranking_error e, [])
      | Inr _ \<Rightarrow>
          (case rank_reply env of
             Raises e \<Rightarrow> (ranking_error e, [RankingRequest payload])
           | Response status_code text json \<Rightarrow>
               if status_code = 200 then
                 (case json of
                    Inl e \<Rightarrow> (ranking_error e, [RankingRequest payload])
                  | Inr result \<Rightarrow> (result, [RankingRequest payload]))
               else ([(''error'', PStr (''API Error: '' @ str_of_int status_code)),
                      (''status_code'', PInt status_code)], [RankingRequest payload])))"

fun flowise_error :: "exn \<Rightarrow> pydict" where
  "flowise_error Timeout =
     [(''error'', PStr ''Flowise timeout (300 seconds exceeded - Flowise may need more time for scraping)''),
      (''success'', PBool False)]"
| "flowise_error (Exception m) =
     [(''error'', PStr (''Error calling Flowise: '' @ m)), (''success'', PBool False)]"

text \<open>\<open>v.strip() if v else None\<close>.\<close>

definition strip_or_none :: "pyval \<Rightarrow> exn + pyval" where
  "strip_or_none v = (if truthy v then bind (py_strip v) (\<lambda>s. Inr (PStr s)) else Inr PNone)"

text \<open>
  The request body of \<open>call_flowise_evaluation\<close>; \<open>None\<close> when the candidate name is
  missing or blank, in which case the function returns before any request.
\<close>

definition flowise_payload ::
  "pyval \<Rightarrow> pyval \<Rightarrow> pyval \<Rightarrow> pyval \<Rightarrow> pyval \<Rightarrow> pyval \<Rightarrow> pyval \<Rightarrow> pyval \<Rightarrow> exn + pydict option" where
  "flowise_payload candidate_name candidate_email candidate_phone github_url linkedin_url
       portfolio_url facebook_url match_score =
     (if \<not> truthy candidate_name then Inr None
      else bind (py_strip candidate_name) (\<lambda>name.
        if name = [] then Inr None
        else bind (strip_or_none candidate_email) (\<lambda>email.
             bind (strip_or_none candidate_phone) (\<lambda>phone.
             bind (strip_or_none github_url) (\<lambda>github.
             bind (strip_or_none linkedin_url) (\<lambda>linkedin.
             bind (strip_or_none portfolio_url) (\<lambda>portfolio.
             bind (strip_or_none facebook_url) (\<lambda>facebook.
             bind (format_percent 0 match_score) (\<lambda>pct.
               Inr (Some [(''candidate_name'', PStr name),
                          (''candidate_email'', email),
                          (''candidate_phone'', phone),
                          (''github_url'', github),
                          (''linkedin_url'', linkedin),
                          (''portfolio_url'', portfolio),
                          (''facebook_url'', facebook),
                          (''cv_summary'', PStr (''Match score: '' @ pct))]))))))))))"

definition call_flowise_evaluation ::
  "environment \<Rightarrow> pyval \<Rightarrow> pyval \<Rightarrow> pyval \<Rightarrow> pyval \<Rightarrow> pyval \<Rightarrow> pyval \<Rightarrow> pyval \<Rightarrow> pyval
   \<Rightarrow> pydict \<times> event list" where
  "call_flowise_evaluation env candidate_name candidate_email candidate_phone github_url
       linkedin_url portfolio_url facebook_url match_score =
     (case flowise_payload candidate_name candidate_email candidate_phone github_url
             linkedin_url portfolio_url facebook_url match_score of
        Inl e \<Rightarrow> (flowise_error e, [FlowiseEvaluation])
      | Inr None \<Rightarrow>
          ([(''error'', PStr ''Candidate name is required''), (''success'', PBool False)],
           [FlowiseEvaluation])
      | Inr (Some payload) \<Rightarrow>
          (case flowise_reply env of
             Raises e \<Rightarrow> (flowise_error e, [FlowiseEvaluation, FlowiseRequest payload])
           | Response status_code text json \<Rightarrow>
               if status_code = 200 then
                 (case json of
                    Inl e \<Rightarrow> (flowise_error e, [FlowiseEvaluation, FlowiseRequest payload])
                  | Inr result \<Rightarrow> (result, [FlowiseEvaluation, FlowiseRequest payload]))
               else ([(''error'', PStr (''Flowise API Error: '' @ str_of_int status_code)),
                      (''success'', PBool False),
                      (''status_code'', PInt status_code)],
                     [FlowiseEvaluation, FlowiseRequest payload])))"

text \<open>\<open>format_results\<close>: the error branch comes before its \<open>try\<close>.\<close>

definition format_results :: "rendering \<Rightarrow> pydict \<Rightarrow> string \<times> string \<times> string" where
  "format_results rend response =
     (if has_key response ''error''
        then (''Error: '' @ py_str rend (dict_get response ''error'' (PStr ''Unknown error'')), [], [])
      else render_results rend response)"

text \<open>\<open>(social_profiles.get(key, []) or [''])[0] or ''\<close>.\<close>

definition first_url :: "pyval \<Rightarrow> string \<Rightarrow> exn + pyval" where
  "first_url social_profiles key =
     bind (py_get social_profiles key (PList [])) (\<lambda>links.
     bind (py_first (py_or links (PList [PStr []]))) (\<lambda>link.
       Inr (py_or link (PStr []))))"

text \<open>
  The arguments that \<open>execute_ranking\<close> saves. They are computed inside the \<open>try\<close>
  around the save, so an exception here means that nothing is saved.
\<close>

definition save_arguments :: "pydict \<Rightarrow> pydict \<Rightarrow> pydict \<Rightarrow> exn + pyval list" where
  "save_arguments response payload_dict flowise_response =
     (let jd_title = dict_get response ''jd_title'' (PStr ''Job Position'');
          match_score = dict_get response ''match_score'' (PInt 0)
      in bind (py_get (dict_get response ''social_weighting'' (PDict [])) ''recommendation'' PNone)
           (\<lambda>weighted.
         bind (if truthy weighted then Inr weighted
               else if truthy (dict_get response ''recommendation'' PNone)
                 then Inr (dict_get response ''recommendation'' PNone)
               else bind (format_percent 1 match_score) (\<lambda>pct. Inr (PStr (''Match score: '' @ pct))))
           (\<lambda>recommendation.
         bind (py_take 200 recommendation) (\<lambda>recommendation.
           Inr [dict_get payload_dict ''candidate_name'' (PStr ''Unknown''),
                jd_title, match_score, recommendation,
                dict_get response ''social_profiles'' (PDict []),
                PDict flowise_response]))))"

definition save_from_arguments ::
  "int \<Rightarrow> nat \<Rightarrow> pyval list \<Rightarrow> database \<Rightarrow> database" where
  "save_from_arguments MAX_RECORDS now args db =
     (case args of
        [candidate_name, job_title, match_score, recommendation, social_profiles, flowise_response] \<Rightarrow>
          (case save_search_result MAX_RECORDS now candidate_name job_title match_score
                  recommendation social_profiles flowise_response (PStr []) db of
             Inl e \<Rightarrow> db
           | Inr (record_id, db') \<Rightarrow> db')
      | _ \<Rightarrow> db)"

type_synonym ranking_output = "string \<times> string \<times> string \<times> pydict \<times> string"

definition execute_ranking ::
  "rendering \<Rightarrow> environment \<Rightarrow> int \<Rightarrow> pydict \<Rightarrow> database
   \<Rightarrow> (exn + ranking_output) \<times> database \<times> event list" where
  "execute_ranking rend env MAX_RECORDS payload_dict db =
     (if payload_dict = [] then
        (Inr (''Error: No payload'', [], [], [], ''<p style='color: red;'>No data available</p>''),
         db, [])
      else case logged_lengths payload_dict of
        Inl e \<Rightarrow> (Inl e, db, [])
      | Inr _ \<Rightarrow>
        let (response, calls) = call_ranking_api env payload_dict;
            (baseline, social, delta) = format_results rend response;
            social_step =
              (if \<not> has_key response ''error'' \<and> truthy (dict_get payload_dict ''candidate_name'' PNone)
               then
                 let social_profiles = dict_get payload_dict ''social_media_profiles'' (PDict []) in
                 bind (first_url social_profiles ''github'') (\<lambda>github_url.
                 bind (first_url social_profiles ''linkedin'') (\<lambda>linkedin_url.
                 bind (first_url social_profiles ''portfolio'') (\<lambda>portfolio_url.
                 bind (first_url social_profiles ''facebook'') (\<lambda>facebook_url.
                   let (flowise_response, flowise_calls) =
                         call_flowise_evaluation env
                           (dict_get payload_dict ''candidate_name'' (PStr []))
                           (dict_get payload_dict ''candidate_email'' (PStr []))
                           (dict_get payload_dict ''candidate_phone'' (PStr []))
                           github_url linkedin_url portfolio_url facebook_url
                           (dict_get response ''match_score'' (PInt 0))
                   in Inr (flowise_response,
                           AList.update ''flowise_evaluation'' (PDict flowise_response) response,
                           flowise_calls)))))
               else Inr ([], response, []))
        in case social_step of
             Inl e \<Rightarrow> (Inl e, db, calls)
           | Inr (flowise_response, response, flowise_calls) \<Rightarrow>
               let flowise_html = format_flowise_output rend response payload_dict;
                   out = Inr (baseline, social, delta, response, flowise_html)
               in (case save_arguments response payload_dict flowise_response of
                     Inl e \<Rightarrow> (out, db, calls @ flowise_calls)
                   | Inr args \<Rightarrow>
                       (out, save_from_arguments MAX_RECORDS (clock env) args db,
                        calls @ flowise_calls @ [SaveSearchResult args])))"

text \<open>
  The submit button runs \<open>validate_and_submit\<close> and then \<open>execute_ranking\<close> on the
  payload that the validation left in the state of the page.
\<close>

definition submit_click ::
  "rendering \<Rightarrow> environment \<Rightarrow> int \<Rightarrow>
   string \<Rightarrow> string \<Rightarrow> string \<Rightarrow> string \<Rightarrow> string \<Rightarrow> string \<Rightarrow>
   url \<Rightarrow> url \<Rightarrow> url \<Rightarrow> url \<Rightarrow> url \<Rightarrow> database
   \<Rightarrow> string \<times> (exn + ranking_output) \<times> database \<times> event list" where
  "submit_click rend env MAX_RECORDS cand_name cand_id cand_email cand_phone jd_t cv_t
       gh li port fb other db =
     (let (baseline, validation_error, state_payload, status) =
            validate_and_submit cand_name cand_id cand_email cand_phone jd_t cv_t gh li port fb other
      in (validation_error, execute_ranking rend env MAX_RECORDS state_payload db))"

section \<open>The pipeline of app\_gdpr\_compliant.py\<close>

text \<open>\<open>s.replace(" ", "_")\<close> and \<open>s.lower()\<close>, the latter on the letters A to Z and on
  the capital letters U+00C0 to U+00DE except the multiplication sign.\<close>

definition replace_spaces :: "string \<Rightarrow> string" where
  "replace_spaces s = map (\<lambda>c. if c = CHR '' '' then CHR ''_'' else c) s"

definition lower_char :: "char \<Rightarrow> char" where
  "lower_char c =
     (let n = (of_char c :: nat)
      in if (65 \<le> n \<and> n \<le> 90) \<or> (192 \<le> n \<and> n \<le> 222 \<and> n \<noteq> 215) then char_of (n + 32) else c)"

definition lower :: "string \<Rightarrow> string" where
  "lower s = map lower_char s"

definition evaluation_failure :: "pyval \<Rightarrow> pyval" where
  "evaluation_failure message =
     PDict [(''error'', message),
            (''profiles_found'', PList []),
            (''profiles_verified'', PList []),
            (''social_presence_score'', PFloat 0),
            (''risk_flags'', PList [])]"

text \<open>\<open>evaluate_with_flowise_via_be\<close>: the whole body is inside \<open>try\<close>.\<close>

definition evaluate_with_flowise_via_be :: "environment \<Rightarrow> string \<Rightarrow> pyval \<times> event list" where
  "evaluate_with_flowise_via_be env question =
     (let calls = [FlowiseEvaluation, FlowiseRequest [(''question'', PStr question)]] in
      case flowise_reply env of
        Raises e \<Rightarrow> (evaluation_failure (PStr (str_of_exn e)), calls)
      | Response status_code text json \<Rightarrow>
          if status_code = 200 then
            (case json of
               Inl e \<Rightarrow> (evaluation_failure (PStr (str_of_exn e)), calls)
             | Inr result \<Rightarrow>
                 if truthy (dict_get result ''success'' PNone)
                   then (dict_get result ''evaluation'' (PDict []), calls)
                 else (evaluation_failure (dict_get result ''error'' (PStr ''Unknown error'')), calls))
          else (evaluation_failure
                  (PStr (''BE returned '' @ str_of_int status_code @ '': '' @ text)), calls))"

text \<open>
  The social profiles of a request: the stripped fields that are not empty, under their
  keys; the other link is added last.
\<close>

definition social_profiles_of ::
  "string \<Rightarrow> string \<Rightarrow> url \<Rightarrow> url \<Rightarrow> url \<Rightarrow> url \<Rightarrow> url \<Rightarrow> pydict" where
  "social_profiles_of email phone github_url linkedin_url portfolio_url facebook_url other_social =
     (let social_profiles =
            [(''email'', if strip email \<noteq> [] then PStr (strip email) else PNone),
             (''phone'', if strip phone \<noteq> [] then PStr (strip phone) else PNone),
             (''github'', if strip github_url \<noteq> [] then PStr (strip github_url) else PNone),
             (''linkedin'', if strip linkedin_url \<noteq> [] then PStr (strip linkedin_url) else PNone),
             (''portfolio'', if strip portfolio_url \<noteq> [] then PStr (strip portfolio_url) else PNone),
             (''facebook'', if strip facebook_url \<noteq> [] then PStr (strip facebook_url) else PNone)];
          social_profiles = filter (\<lambda>(k, v). truthy v) social_profiles
      in if strip other_social \<noteq> []
           then AList.update ''other'' (PStr (strip other_social)) social_profiles
         else social_profiles)"

type_synonym gdpr_output = "pyval \<times> pyval \<times> string \<times> string \<times> string \<times> string"

text \<open>The answer of the \<open>except\<close> around the whole function.\<close>

definition error_occurred :: "exn \<Rightarrow> gdpr_output" where
  "error_occurred e =
     (PNone, PStr ''Error occurred'',
      ''An error occurred while ranking the CV:'' @ [CHR 10] @ ''Error: '' @ str_of_exn e,
      ''Error: '' @ str_of_exn e, [], [])"

text \<open>
  Step 2: the social evaluation, when it is enabled and there are profiles. It yields
  the explanation, the presence score and the text of the evaluation.
\<close>

definition evaluate_social_profiles ::
  "rendering \<Rightarrow> environment \<Rightarrow> bool \<Rightarrow> pydict \<Rightarrow> pyval list \<Rightarrow> string
   \<Rightarrow> (exn + string \<times> pyval \<times> string) \<times> event list" where
  "evaluate_social_profiles rend env evaluate_social social_profiles query_fields explanation =
     (if evaluate_social \<and> social_profiles \<noteq> [] then
        let flowise_question = build_query rend query_fields;
            (flowise_result, calls) = evaluate_with_flowise_via_be env flowise_question
        in (bind (py_contains ''error'' flowise_result) (\<lambda>failed.
              if \<not> failed then
                bind (py_get flowise_result ''social_presence_score'' (PFloat 0)) (\<lambda>social_presence_score.
                bind (render_flowise_evaluation rend flowise_result) (\<lambda>flowise_evaluation.
                  Inr (explanation @ [CHR 10, CHR 10] @ flowise_evaluation,
                       social_presence_score, flowise_evaluation)))
              else
                bind (py_get flowise_result ''error'' (PStr ''Unknown error'')) (\<lambda>message.
                  Inr (explanation, PFloat 0,
                       ''Flowise evaluation skipped: '' @ py_str rend message))),
            calls)
      else (Inr (explanation, PFloat 0, []), []))"

text \<open>Steps 2 and 3, after the ranking service has answered with a result.\<close>

definition evaluate_and_save ::
  "rendering \<Rightarrow> environment \<Rightarrow> int \<Rightarrow> string \<Rightarrow> string \<Rightarrow> bool \<Rightarrow> pydict \<Rightarrow> pyval list
   \<Rightarrow> pydict \<Rightarrow> database \<Rightarrow> gdpr_output \<times> database \<times> event list" where
  "evaluate_and_save rend env MAX_RECORDS jd_title candidate_name evaluate_social social_profiles
       query_fields result db =
     (let match_score = dict_get result ''match_score'' (PInt 0);
          recommendation = dict_get result ''recommendation'' (PStr ''No recommendation'')
      in case render_explanation rend result of
           Inl e \<Rightarrow> (error_occurred e, db, [])
         | Inr explanation \<Rightarrow>
             (case evaluate_social_profiles rend env evaluate_social social_profiles query_fields explanation of
                (Inl e, calls) \<Rightarrow> (error_occurred e, db, calls)
              | (Inr (explanation, social_presence_score, flowise_evaluation), calls) \<Rightarrow>
                  let args = [PStr candidate_name, PStr jd_title, match_score, recommendation,
                              PDict social_profiles,
                              PDict [(''presence_score'', social_presence_score)]];
                      db' = (case save_search_result MAX_RECORDS (clock env) (PStr candidate_name)
                                    (PStr jd_title) match_score recommendation (PDict social_profiles)
                                    (PDict [(''presence_score'', social_presence_score)])
                                    (PStr (''Ranked at '' @ wall_clock env)) db of
                               Inl e \<Rightarrow> db
                             | Inr (record_id, saved) \<Rightarrow> saved);
                      calls = calls @ [SaveSearchResult args];
                      social_display =
                        (if social_profiles \<noteq> [] then json_dumps rend (PDict social_profiles)
                         else ''No social profiles provided'')
                  in (case render_history rend (get_search_history MAX_RECORDS db') of
                        Inl e \<Rightarrow> (error_occurred e, db', calls)
                      | Inr history_display \<Rightarrow>
                          ((match_score, recommendation, explanation, social_display,
                            flowise_evaluation, history_display), db', calls))))"

definition API_URL :: string where
  "API_URL = ''http://127.0.0.1:8000/rank/enhanced''"

definition rank_cv_with_social_and_flowise ::
  "rendering \<Rightarrow> environment \<Rightarrow> int \<Rightarrow>
   string \<Rightarrow> string \<Rightarrow> string \<Rightarrow> string \<Rightarrow> string \<Rightarrow> string \<Rightarrow>
   url \<Rightarrow> url \<Rightarrow> url \<Rightarrow> url \<Rightarrow> url \<Rightarrow> bool \<Rightarrow> database
   \<Rightarrow> gdpr_output \<times> database \<times> event list" where
  "rank_cv_with_social_and_flowise rend env MAX_RECORDS jd_title jd_description cv_text
       candidate_name email phone github_url linkedin_url portfolio_url facebook_url other_social
       evaluate_social db =
     (if strip candidate_name = [] then
        ((PNone, PStr ''Candidate name is required'', [], [], [], []), db, [])
      else if strip cv_text = [] then
        ((PNone, PStr ''CV content is required'', [], [], [], []), db, [])
      else if strip jd_description = [] then
        ((PNone, PStr ''Job description is required'', [], [], [], []), db, [])
      else
        let social_profiles = social_profiles_of email phone github_url linkedin_url
                                portfolio_url facebook_url other_social;
            payload = [(''jd_title'', py_or (PStr jd_title) (PStr ''Job Position'')),
                       (''jd_description'', PStr jd_description),
                       (''candidate_id'', PStr (lower (replace_spaces candidate_name))),
                       (''candidate_name'', PStr candidate_name),
                       (''cv_text'', PStr cv_text),
                       (''social_media_profiles'', PDict social_profiles),
                       (''include_shap'', PBool True)];
            query_fields = [PStr candidate_name, PStr email, PStr phone, PStr github_url,
                      PStr linkedin_url, PStr portfolio_url, PStr facebook_url, PStr other_social,
                      (if take 300 cv_text \<noteq> [] then PStr (take 200 (take 300 cv_text)) else PNone)]
        in case rank_reply env of
             Raises e \<Rightarrow> (error_occurred e, db, [RankingRequest payload])
           | Response status_code text json \<Rightarrow>
               if status_code \<noteq> 200 then
                 ((PNone,
                   PStr (''Ranking failed: API Error '' @ str_of_int status_code @ '': '' @ text),
                   ''Failed to rank CV. Please check the API is running at '' @ API_URL,
                   json_dumps rend (PDict social_profiles), [], []),
                  db, [RankingRequest payload])
               else
                 (case json of
                    Inl e \<Rightarrow> (error_occurred e, db, [RankingRequest payload])
                  | Inr result \<Rightarrow>
                      let (out, db', calls) =
                            evaluate_and_save rend env MAX_RECORDS jd_title candidate_name
                              evaluate_social social_profiles query_fields result db
                      in (out, db', RankingRequest payload # calls)))"

section \<open>Notions used in the properties\<close>

text \<open>A request failed: it raised (a timeout or a transport error) or the status was
  not 200.\<close>

fun request_failed :: "http_reply \<Rightarrow> bool" where
  "request_failed (Raises e) = True"
| "request_failed (Response status_code text json) = (status_code \<noteq> 200)"

text \<open>The result of a ranking request that succeeded.\<close>

fun ranking_result :: "http_reply \<Rightarrow> pydict option" where
  "ranking_result (Raises e) = None"
| "ranking_result (Response status_code text json) =
     (if status_code = 200 then (case json of Inl e \<Rightarrow> None | Inr result \<Rightarrow> Some result)
      else None)"

text \<open>
  Scoring succeeded in \<open>rank_cv_with_social_and_flowise\<close>: the inputs passed the
  validation, the ranking request was answered with a result and the explanation of the
  result was rendered.
\<close>

definition scoring_succeeded ::
  "rendering \<Rightarrow> environment \<Rightarrow> string \<Rightarrow> string \<Rightarrow> string \<Rightarrow> bool" where
  "scoring_succeeded rend env candidate_name cv_text jd_description =
     (strip candidate_name \<noteq> [] \<and> strip cv_text \<noteq> [] \<and> strip jd_description \<noteq> []
      \<and> (case ranking_result (rank_reply env) of
            None \<Rightarrow> False
          | Some result \<Rightarrow>
              (case render_explanation rend result of Inl e \<Rightarrow> False | Inr explanation \<Rightarrow> True)))"

text \<open>The failure variant of the social evaluation result in app\_with\_progress.py.\<close>

definition failure_variant :: "pydict \<Rightarrow> bool" where
  "failure_variant d = (has_key d ''error'' \<and> dict_get d ''success'' PNone = PBool False)"

text \<open>The response of a ranking request that failed holds an error and none of the
  keys that the save reads.\<close>

definition error_only :: "pydict \<Rightarrow> bool" where
  "error_only r =
     (has_key r ''error'' \<and> map_of r ''jd_title'' = None \<and> map_of r ''match_score'' = None
      \<and> map_of r ''social_weighting'' = None \<and> map_of r ''recommendation'' = None
      \<and> map_of r ''social_profiles'' = None)"

text \<open>A rendering to run the pipelines with: every text is empty.\<close>

definition blank_rendering :: rendering where
  "blank_rendering =
     \<lparr>render_results = (\<lambda>response. ([], [], [])),
      format_flowise_output = (\<lambda>response payload. []),
      json_dumps = (\<lambda>v. []),
      py_str = (\<lambda>v. case v of PStr s \<Rightarrow> s | _ \<Rightarrow> []),
      render_explanation = (\<lambda>result. Inr []),
      render_flowise_evaluation = (\<lambda>v. Inr []),
      render_history = (\<lambda>rows. Inr []),
      build_query = (\<lambda>vs. [])\<rparr>"

section \<open>Properties of the history store\<close>

subsection \<open>Auxiliary facts about stable sorting\<close>

lemma fold_max_ge_init: "(a::int) \<le> fold max xs a"
proof (induction xs arbitrary: a)
  case Nil then show ?case by simp
next
  case (Cons y ys)
  have "a \<le> max y a" by simp
  also have "max y a \<le> fold max ys (max y a)" by (rule Cons.IH)
  finally show ?case by simp
qed

lemma fold_max_ge_mem: "x \<in> set xs \<Longrightarrow> (x::int) \<le> fold max xs a"
proof (induction xs arbitrary: a)
  case Nil then show ?case by simp
next
  case (Cons y ys)
  show ?case
  proof (cases "x = y")
    case True
    have "y \<le> max y a" by simp
    also have "max y a \<le> fold max ys (max y a)" by (rule fold_max_ge_init)
    finally show ?thesis using True by simp
  next
    case False
    then show ?thesis using Cons by simp
  qed
qed

lemma insort_key_pair_sorted:
  fixes f :: "'a \<Rightarrow> 'k::linorder" and g :: "'a \<Rightarrow> int"
  assumes "sorted (map (\<lambda>r. (f r, g r)) ys)" and "\<forall>y\<in>set ys. g x < g y"
  shows "sorted (map (\<lambda>r. (f r, g r)) (insort_key f x ys))"
  using assms
proof (induction ys)
  case Nil then show ?case by simp
next
  case (Cons y ys)
  show ?case
  proof (cases "f x \<le> f y")
    case True
    have "\<forall>z\<in>set (y # ys). (f x, g x) \<le> (f z, g z)"
    proof
      fix z assume z: "z \<in> set (y # ys)"
      have "(f y, g y) \<le> (f z, g z)" using Cons.prems(1) z by auto
      then have "f y \<le> f z" by auto
      with True have "f x \<le> f z" by simp
      moreover have "g x < g z" using Cons.prems(2) z by auto
      ultimately show "(f x, g x) \<le> (f z, g z)" by auto
    qed
    then show ?thesis using True Cons.prems(1) by simp
  next
    case False
    then have lt: "f y < f x" by simp
    have ih: "sorted (map (\<lambda>r. (f r, g r)) (insort_key f x ys))"
      using Cons.IH Cons.prems by simp
    have "\<forall>z\<in>set (insort_key f x ys). (f y, g y) \<le> (f z, g z)"
      using Cons.prems(1) lt by (auto simp: set_insort_key)
    then show ?thesis using False ih by simp
  qed
qed

lemma sort_key_pair_sorted:
  fixes f :: "'a \<Rightarrow> 'k::linorder" and g :: "'a \<Rightarrow> int"
  assumes "sorted_wrt (<) (map g xs)"
  shows "sorted (map (\<lambda>r. (f r, g r)) (sort_key f xs))"
  using assms
proof (induction xs)
  case Nil then show ?case by simp
next
  case (Cons x xs)
  have "sorted (map (\<lambda>r. (f r, g r)) (sort_key f xs))" using Cons by simp
  moreover have "\<forall>y\<in>set (sort_key f xs). g x < g y" using Cons.prems by simp
  ultimately show ?case by (simp add: insort_key_pair_sorted)
qed

lemma sorted_wrt_less_distinct: "sorted_wrt (<) (map g xs) \<Longrightarrow> distinct (map (g :: 'a \<Rightarrow> int) xs)"
  by (simp add: strict_sorted_iff)

lemma sort_key_pair_eq:
  fixes f :: "'a \<Rightarrow> 'k::linorder" and g :: "'a \<Rightarrow> int"
  assumes "sorted_wrt (<) (map g xs)"
  shows "sort_key f xs = sort_key (\<lambda>r. (f r, g r)) xs"
proof -
  let ?h = "\<lambda>r. (f r, g r)"
  have dg: "distinct (map g xs)" using assms by (rule sorted_wrt_less_distinct)
  then have inj: "inj_on g (set xs)" and dx: "distinct xs" by (auto simp: distinct_map)
  have injh: "inj_on ?h (set xs)" using inj by (auto simp: inj_on_def)
  have d1: "distinct (map ?h (sort_key f xs))"
    using injh dx by (simp add: distinct_map)
  have d2: "distinct (map ?h (sort_key ?h xs))"
    using injh dx by (simp add: distinct_map)
  have s1: "sorted (map ?h (sort_key f xs))" using assms by (rule sort_key_pair_sorted)
  have s2: "sorted (map ?h (sort_key ?h xs))" by simp
  have "map ?h (sort_key f xs) = map ?h (sort_key ?h xs)"
    using s1 s2 d1 d2 by (intro sorted_distinct_set_unique) simp_all
  then show ?thesis
    using injh by (auto dest!: inj_on_map_eq_map [THEN iffD1, rotated])
qed


lemma filter_not_in_take:
  assumes "distinct xs"
  shows "filter (\<lambda>x. x \<notin> set (take k xs)) xs = drop k xs"
proof -
  have disj: "set (take k xs) \<inter> set (drop k xs) = {}"
    using assms by (rule set_take_disj_set_drop_if_distinct) simp
  have "filter (\<lambda>x. x \<notin> set (take k xs)) xs
        = filter (\<lambda>x. x \<notin> set (take k xs)) (take k xs) @ filter (\<lambda>x. x \<notin> set (take k xs)) (drop k xs)"
    by (metis append_take_drop_id filter_append)
  moreover have "filter (\<lambda>x. x \<notin> set (take k xs)) (take k xs) = []"
    by (simp add: filter_empty_conv)
  moreover have "filter (\<lambda>x. x \<notin> set (take k xs)) (drop k xs) = drop k xs"
    using disj by (auto simp: filter_id_conv)
  ultimately show ?thesis by simp
qed

lemma filter_ids_as_rows:
  assumes "inj_on g (set xs)" and "set ys \<subseteq> set xs"
  shows "filter (\<lambda>r. g r \<notin> set (map g ys)) xs = filter (\<lambda>r. r \<notin> set ys) xs"
proof (rule filter_cong [OF refl])
  fix r assume r: "r \<in> set xs"
  show "(g r \<notin> set (map g ys)) = (r \<notin> set ys)"
    using assms r by (auto simp: inj_on_def)
qed

lemma length_filter_not_in:
  assumes "distinct xs" and "distinct ys" and "set ys \<subseteq> set xs"
  shows "length (filter (\<lambda>r. r \<notin> set ys) xs) = length xs - length ys"
proof -
  have "length (filter (\<lambda>r. r \<notin> set ys) xs) = card ({r. r \<notin> set ys} \<inter> set xs)"
    using assms(1) by (rule distinct_length_filter)
  also have "{r. r \<notin> set ys} \<inter> set xs = set xs - set ys" by auto
  also have "card (set xs - set ys) = card (set xs) - card (set ys)"
    using assms(3) by (simp add: card_Diff_subset)
  also have "\<dots> = length xs - length ys"
    using assms(1,2) by (simp add: distinct_card)
  finally show ?thesis .
qed

lemma evict_props:
  fixes rows :: "search_record list"
  assumes ord: "sorted_wrt (<) (map col_id rows)" and big: "int (length rows) > N" and nn: "0 \<le> N"
  defines "k \<equiv> length rows - nat N"
  defines "kept \<equiv> filter (\<lambda>r. col_id r \<notin> set (map col_id
                (sql_limit (int (length rows) - N) (order_by_timestamp_asc rows)))) rows"
  shows "kept = filter (\<lambda>r. r \<notin> set (take k (sort_key age_key rows))) rows"
    and "length kept = nat N"
    and "set kept = set (drop k (sort_key age_key rows))"
    and "sorted (map col_timestamp rows) \<Longrightarrow> kept = drop k rows"
proof -
  let ?S = "sort_key age_key rows"
  have dg: "distinct (map col_id rows)" using ord by (simp add: strict_sorted_iff)
  then have inj: "inj_on col_id (set rows)" and dx: "distinct rows" by (auto simp: distinct_map)
  have S: "order_by_timestamp_asc rows = ?S"
    unfolding order_by_timestamp_asc_def age_key_def using ord by (rule sort_key_pair_eq)
  have lim: "sql_limit (int (length rows) - N) (order_by_timestamp_asc rows) = take k ?S"
    using big nn unfolding sql_limit_def k_def S by (simp add: nat_diff_distrib')
  have sub: "set (take k ?S) \<subseteq> set rows" using set_take_subset [of k ?S] by simp
  show k1: "kept = filter (\<lambda>r. r \<notin> set (take k ?S)) rows"
    unfolding kept_def lim using inj sub by (rule filter_ids_as_rows)
  have dS: "distinct ?S" using dx by simp
  have dT: "distinct (take k ?S)" using dS by (rule distinct_take)
  have "length kept = length rows - length (take k ?S)"
    unfolding k1 using dx dT sub by (rule length_filter_not_in)
  then show "length kept = nat N" using big nn unfolding k_def by simp
  have "set kept = set rows - set (take k ?S)" unfolding k1 by auto
  also have "\<dots> = set ?S - set (take k ?S)" by simp
  also have "\<dots> = set (drop k ?S)"
  proof -
    have "set (take k ?S) \<inter> set (drop k ?S) = {}"
      using dS by (rule set_take_disj_set_drop_if_distinct) simp
    moreover have "set (take k ?S) \<union> set (drop k ?S) = set ?S"
      by (metis append_take_drop_id set_append)
    ultimately show ?thesis by blast
  qed
  finally show "set kept = set (drop k ?S)" .
  assume "sorted (map col_timestamp rows)"
  then have "sort_key col_timestamp rows = rows" by (rule sort_key_id_if_sorted)
  then have "?S = rows" using S unfolding order_by_timestamp_asc_def by simp
  then show "kept = drop k rows" unfolding k1 using dx by (simp add: filter_not_in_take)
qed

lemma insort_key_snoc:
  assumes "\<forall>y\<in>set ys. f y < f x"
  shows "insort_key f x ys = ys @ [x]"
  using assms by (induction ys) auto

lemma sort_key_desc_rev:
  assumes "sorted_wrt (<) (map col_timestamp rows)"
  shows "order_by_timestamp_desc rows = rev rows"
  using assms unfolding order_by_timestamp_desc_def
proof (induction rows)
  case Nil then show ?case by simp
next
  case (Cons r rows)
  have ih: "sort_key (\<lambda>r. - int (col_timestamp r)) rows = rev rows" using Cons by simp
  have "\<forall>y\<in>set (rev rows). - int (col_timestamp y) < - int (col_timestamp r)"
    using Cons.prems by auto
  then have "insort_key (\<lambda>r. - int (col_timestamp r)) r (rev rows) = rev rows @ [r]"
    by (rule insort_key_snoc)
  then show ?case using ih by simp
qed

subsection \<open>Capacity and eviction\<close>

text \<open>
  C2. After every successful save into a store whose rows are in rowid order, with a
  capacity \<open>N \<ge> 0\<close>: the new row gets an id above every stored one and the clock's
  timestamp; the store then holds \<open>min (count + 1) N\<close> rows, so never more than \<open>N\<close>
  and exactly \<open>N\<close> once it was full; the rows deleted are exactly the first
  \<open>count + 1 - N\<close> rows in the order by timestamp and then by id (the oldest by
  timestamp, a tie going to the lower id), the survivors are the \<open>N\<close> last rows of
  that order, and when the timestamps do not decrease along the ids those are the \<open>N\<close>
  most recently inserted rows. The other two operations that change the store, the
  deletion of a record and the clearing of the history, never add a row.
\<close>

theorem save_search_result_keeps_newest:
  assumes ord: "rowid_ordered db" and nn: "0 \<le> N"
    and sv: "save_search_result N now cn jt ms rc sp fr nt db = Inr (rid, db')"
  shows "\<exists>row. col_id row = rid \<and> col_timestamp row = now
           \<and> (\<forall>r\<in>set (search_history db). col_id r < rid)
           \<and> (let rows = search_history db @ [row]; k = length rows - nat N in
                length (search_history db') = min (length rows) (nat N)
              \<and> search_history db' = filter (\<lambda>r. r \<notin> set (take k (sort_key age_key rows))) rows
              \<and> set (search_history db') = set (drop k (sort_key age_key rows))
              \<and> (sorted (map col_timestamp rows) \<longrightarrow> search_history db' = drop k rows))
           \<and> rowid_ordered db'
           \<and> length (search_history (snd (delete_search_record record_id db')))
               \<le> length (search_history db')
           \<and> search_history (clear_all_search_history db') = []"
proof -
  define row where "row = \<lparr>col_id = next_rowid db, col_timestamp = now,
                   col_candidate_name = cn, col_job_title = jt,
                   col_match_score = ms, col_recommendation = rc,
                   col_social_profiles = sp,
                   col_flowise_response = (if truthy fr then Some fr else None),
                   col_notes = nt\<rparr>"
  define rows where "rows = search_history db @ [row]"
  define k where "k = length rows - nat N"
  define kept where "kept = filter (\<lambda>r. col_id r \<notin> set (map col_id
                (sql_limit (int (length rows) - N) (order_by_timestamp_asc rows)))) rows"
  have rid: "rid = next_rowid db"
    and db': "db' = \<lparr>search_history = (if int (length rows) > N then kept else rows),
                     sqlite_sequence = next_rowid db\<rparr>"
    using sv unfolding save_search_result_def row_def rows_def kept_def
    by (auto simp: Let_def split: if_splits)
  have fresh: "\<forall>r\<in>set (search_history db). col_id r < rid"
  proof
    fix r assume "r \<in> set (search_history db)"
    then have "col_id r \<le> fold max (map col_id (search_history db)) (sqlite_sequence db)"
      by (intro fold_max_ge_mem) simp
    then show "col_id r < rid" unfolding rid next_rowid_def by simp
  qed
  have ordr: "sorted_wrt (<) (map col_id rows)"
    using ord fresh unfolding rowid_ordered_def rows_def row_def rid
    by (simp add: sorted_wrt_append)
  have body: "length (search_history db') = min (length rows) (nat N)
              \<and> search_history db' = filter (\<lambda>r. r \<notin> set (take k (sort_key age_key rows))) rows
              \<and> set (search_history db') = set (drop k (sort_key age_key rows))
              \<and> (sorted (map col_timestamp rows) \<longrightarrow> search_history db' = drop k rows)"
  proof (cases "int (length rows) > N")
    case True
    have sh: "search_history db' = kept" using True db' by simp
    note ev = evict_props [OF ordr True nn]
    show ?thesis
      unfolding sh kept_def k_def
      using ev True nn by (auto simp: min_def)
  next
    case False
    then have k0: "k = 0" unfolding k_def using nn by simp
    have sh: "search_history db' = rows" using False db' by simp
    have le: "length rows \<le> nat N" using False nn by linarith
    show ?thesis unfolding sh k0 using le by (simp add: min_def)
  qed
  have "sorted_wrt (<) (map col_id (search_history db'))"
  proof -
    have "sorted_wrt (\<lambda>a b. col_id a < col_id b) rows" using ordr by (simp add: sorted_wrt_map)
    then have "sorted_wrt (\<lambda>a b. col_id a < col_id b) (filter (\<lambda>r. r \<notin> set (take k (sort_key age_key rows))) rows)"
      by (rule sorted_wrt_filter)
    then show ?thesis using body by (simp add: sorted_wrt_map)
  qed
  then have "rowid_ordered db'" unfolding rowid_ordered_def .
  moreover have "col_id row = rid" "col_timestamp row = now" unfolding row_def rid by simp_all
  moreover have "length (search_history (snd (delete_search_record record_id db')))
               \<le> length (search_history db')"
    by (simp add: delete_search_record_def)
  moreover have "search_history (clear_all_search_history db') = []"
    by (simp add: clear_all_search_history_def)
  ultimately show ?thesis using fresh body unfolding rows_def k_def Let_def by blast
qed

theorem save_search_result_keeps_newest_witness:
  "rowid_ordered (run_saves 2 [(1000, ''a''), (1000, ''b'')] init_database)
   \<and> (0::int) \<le> 2
   \<and> save_search_result 2 1000 (PStr ''c'') (PStr ''Job Position'') (PFloat (1 / 2))
         (PStr ''Match score: 50.0%'') (PDict []) (PDict []) (PStr [])
         (run_saves 2 [(1000, ''a''), (1000, ''b'')] init_database)
       = Inr (3, run_saves 2 [(1000, ''a''), (1000, ''b''), (1000, ''c'')] init_database)
   \<and> record_ids (run_saves 2 [(1000, ''a''), (1000, ''b'')] init_database) = [1, 2]
   \<and> record_ids (run_saves 2 [(1000, ''a''), (1000, ''b''), (1000, ''c'')] init_database) = [2, 3]
   \<and> length (search_history (run_saves 2 [(1000, ''a''), (1000, ''b''), (1000, ''c'')] init_database)) = 2
   \<and> rowid_ordered (run_saves 2 [(1000, ''a''), (1000, ''b''), (1000, ''c'')] init_database)"
proof -
  let ?db = "run_saves 2 [(1000, ''a''), (1000, ''b'')] init_database"
  let ?db' = "run_saves 2 [(1000, ''a''), (1000, ''b''), (1000, ''c'')] init_database"
  have h1: "rowid_ordered ?db" by code_simp
  have h2: "(0::int) \<le> 2" by simp
  have h3: "save_search_result 2 1000 (PStr ''c'') (PStr ''Job Position'') (PFloat (1 / 2))
         (PStr ''Match score: 50.0%'') (PDict []) (PDict []) (PStr []) ?db = Inr (3, ?db')"
    by code_simp
  have h4: "record_ids ?db = [1, 2]" by code_simp
  have h5: "record_ids ?db' = [2, 3]" by code_simp
  have len: "length (search_history ?db) = 2" by code_simp
  from save_search_result_keeps_newest [OF h1 h2 h3]
  have "length (search_history ?db') = min (length (search_history ?db) + 1) (nat 2)"
    and "rowid_ordered ?db'"
    by (auto simp: Let_def)
  then show ?thesis using h1 h3 h4 h5 len by simp
qed

subsection \<open>Listing\<close>

text \<open>
  C9, as the code has it. With a capacity \<open>N \<ge> 0\<close>, \<open>get_search_history\<close> returns
  at most \<open>N\<close> rows of the store, ordered by timestamp, latest first; rows of one
  timestamp come in ascending id order, the older one first. When the timestamps
  strictly increase along the ids the listing is the most recent first:
  the last \<open>N\<close> ids, reversed.
\<close>

theorem get_search_history_order:
  assumes ord: "rowid_ordered db" and nn: "0 \<le> N"
  shows "get_search_history N db = map row_dict (select_recent N db)
       \<and> length (select_recent N db) \<le> nat N
       \<and> set (select_recent N db) \<subseteq> set (search_history db)
       \<and> sorted (map listing_key (select_recent N db))
       \<and> (sorted_wrt (<) (map col_timestamp (search_history db)) \<longrightarrow>
            listed_ids N db = take (nat N) (rev (map PInt (record_ids db))))"
proof -
  let ?D = "order_by_timestamp_desc (search_history db)"
  have sel: "select_recent N db = take (nat N) ?D"
    using nn unfolding select_recent_def sql_limit_def by simp
  have "sorted (map (\<lambda>r. (- int (col_timestamp r), col_id r)) ?D)"
    unfolding order_by_timestamp_desc_def
    using ord unfolding rowid_ordered_def by (rule sort_key_pair_sorted)
  then have "sorted (map listing_key ?D)" unfolding listing_key_def .
  then have s: "sorted (map listing_key (select_recent N db))"
    unfolding sel by (simp add: take_map [symmetric] sorted_wrt_take)
  have sub: "set (select_recent N db) \<subseteq> set (search_history db)"
    unfolding sel using set_take_subset [of "nat N" ?D]
    by (simp add: order_by_timestamp_desc_def)
  have ids: "listed_ids N db = map (\<lambda>r. PInt (col_id r)) (select_recent N db)"
    unfolding listed_ids_def get_search_history_def
    by (simp add: row_dict_def dict_get_def comp_def)
  have "sorted_wrt (<) (map col_timestamp (search_history db)) \<longrightarrow>
            listed_ids N db = take (nat N) (rev (map PInt (record_ids db)))"
  proof
    assume "sorted_wrt (<) (map col_timestamp (search_history db))"
    then have "?D = rev (search_history db)" by (rule sort_key_desc_rev)
    then show "listed_ids N db = take (nat N) (rev (map PInt (record_ids db)))"
      unfolding ids sel record_ids_def by (simp add: take_map rev_map)
  qed
  then show ?thesis using s sub sel unfolding get_search_history_def by simp
qed

text \<open>
  The scenario of C9 with six saves in six different seconds: ids 1 to 5 are stored,
  the sixth save evicts id 1 and the listing is 6, 5, 4, 3, 2.
\<close>

theorem get_search_history_order_witness:
  "rowid_ordered (run_saves 5 [(1005, ''f'')]
        (run_saves 5 [(1000, ''a''), (1001, ''b''), (1002, ''c''), (1003, ''d''), (1004, ''e'')] init_database))
   \<and> (0::int) \<le> 5
   \<and> sorted_wrt (<) (map col_timestamp (search_history (run_saves 5 [(1005, ''f'')]
        (run_saves 5 [(1000, ''a''), (1001, ''b''), (1002, ''c''), (1003, ''d''), (1004, ''e'')] init_database))))
   \<and> record_ids (run_saves 5 [(1000, ''a''), (1001, ''b''), (1002, ''c''), (1003, ''d''), (1004, ''e'')] init_database) = [1, 2, 3, 4, 5]
   \<and> listed_ids 5 (run_saves 5 [(1005, ''f'')]
        (run_saves 5 [(1000, ''a''), (1001, ''b''), (1002, ''c''), (1003, ''d''), (1004, ''e'')] init_database))
       = [PInt 6, PInt 5, PInt 4, PInt 3, PInt 2]"
proof -
  let ?db = "run_saves 5 [(1005, ''f'')]
        (run_saves 5 [(1000, ''a''), (1001, ''b''), (1002, ''c''), (1003, ''d''), (1004, ''e'')] init_database)"
  have h1: "rowid_ordered ?db" by code_simp
  have h2: "(0::int) \<le> 5" by simp
  have h3: "sorted_wrt (<) (map col_timestamp (search_history ?db))" by code_simp
  have h4: "record_ids (run_saves 5 [(1000, ''a''), (1001, ''b''), (1002, ''c''), (1003, ''d''), (1004, ''e'')] init_database) = [1, 2, 3, 4, 5]"
    by code_simp
  have h5: "take (nat 5) (rev (map PInt (record_ids ?db))) = [PInt 6, PInt 5, PInt 4, PInt 3, PInt 2]"
    by code_simp
  have "listed_ids 5 ?db = take (nat 5) (rev (map PInt (record_ids ?db)))"
    using get_search_history_order [OF h1 h2] h3 by blast
  then show ?thesis using h1 h3 h4 h5 by simp
qed

text \<open>
  The same scenario with six saves within one second, which is the resolution of
  \<open>CURRENT_TIMESTAMP\<close>: id 1 is evicted, and the listing is 2, 3, 4, 5, 6, the oldest
  first.
\<close>

theorem get_search_history_ties_counterexample:
  "record_ids (run_saves 5 [(1000, ''a''), (1000, ''b''), (1000, ''c''), (1000, ''d''), (1000, ''e'')] init_database) = [1, 2, 3, 4, 5]
   \<and> listed_ids 5 (run_saves 5 [(1000, ''f'')]
        (run_saves 5 [(1000, ''a''), (1000, ''b''), (1000, ''c''), (1000, ''d''), (1000, ''e'')] init_database))
       = [PInt 2, PInt 3, PInt 4, PInt 5, PInt 6]
   \<and> listed_ids 5 (run_saves 5 [(1000, ''f'')]
        (run_saves 5 [(1000, ''a''), (1000, ''b''), (1000, ''c''), (1000, ''d''), (1000, ''e'')] init_database))
       \<noteq> [PInt 6, PInt 5, PInt 4, PInt 3, PInt 2]"
  by code_simp

subsection \<open>Deletion\<close>

text \<open>
  C6, as the code has it. Deleting an id that identifies no record leaves the store as it
  is, every record and the count included, and is not an error: the function answers
  \<open>True\<close>, as it does for every \<open>DELETE\<close> statement that ran.
\<close>

theorem delete_search_record_missing:
  assumes "record_id \<notin> set (record_ids db)"
  shows "delete_search_record record_id db = (True, db)"
proof -
  have "filter (\<lambda>r. col_id r \<noteq> record_id) (search_history db) = search_history db"
    using assms unfolding record_ids_def by (auto simp: filter_id_conv)
  then show ?thesis unfolding delete_search_record_def by simp
qed

theorem delete_search_record_missing_witness:
  "7 \<notin> set (record_ids (run_saves 5 [(1000, ''a''), (1001, ''b'')] init_database))
   \<and> delete_search_record 7 (run_saves 5 [(1000, ''a''), (1001, ''b'')] init_database)
       = (True, run_saves 5 [(1000, ''a''), (1001, ''b'')] init_database)"
proof -
  have h: "7 \<notin> set (record_ids (run_saves 5 [(1000, ''a''), (1001, ''b'')] init_database))"
    by code_simp
  show ?thesis using h delete_search_record_missing [OF h] by simp
qed

text \<open>Deleting a missing id does not answer \<open>False\<close>.\<close>

theorem delete_search_record_missing_counterexample:
  "7 \<notin> set (record_ids (run_saves 5 [(1000, ''a''), (1001, ''b'')] init_database))
   \<and> fst (delete_search_record 7 (run_saves 5 [(1000, ''a''), (1001, ''b'')] init_database)) \<noteq> False"
  by code_simp

section \<open>Properties of the payload builder and of validation\<close>

text \<open>
  C8. The presence score that \<open>prepare_payload\<close> attaches to the social profiles is
  the number of non-empty link fields divided by 4, the expected number of link types,
  cut off at 1; it lies between 0 and 1.
\<close>

theorem prepare_payload_presence_score:
  "let n = length (filter (\<lambda>u. u \<noteq> []) [github_url, linkedin_url, portfolio_url, facebook_url, other_social]);
       p = min (of_nat n / 4) (1 :: rat)
   in py_get (dict_get (prepare_payload jd_text cv_text candidate_name candidate_id candidate_email
                 candidate_phone github_url linkedin_url portfolio_url facebook_url other_social)
               ''social_media_profiles'' PNone) ''presence_score'' PNone = Inr (PFloat p)
      \<and> p = max 0 (min 1 (of_nat n / 4)) \<and> 0 \<le> p \<and> p \<le> 1"
  by (simp add: prepare_payload_def build_social_profiles_def num_links_of_def link_list_def
        dict_get_def Let_def min_def max_def)

theorem prepare_payload_presence_score_witness:
  "py_get (dict_get (prepare_payload ''jd'' ''cv'' ''Jane Doe'' [] [] [] ''https://github.com/jane'' [] ''https://jane.dev'' [] [])
               ''social_media_profiles'' PNone) ''presence_score'' PNone = Inr (PFloat (1 / 2))"
  using prepare_payload_presence_score [of "''https://github.com/jane''" "[]" "''https://jane.dev''" "[]" "[]"
      "''jd''" "''cv''" "''Jane Doe''" "[]" "[]" "[]"]
  by (simp add: Let_def)

text \<open>
  C10. \<open>validate_phone\<close> tests the cleaned number with \<open>str.isdigit\<close>, which also
  holds of the superscript digits. Seven times U+00B2 is accepted although it holds no
  decimal digit.
\<close>

theorem validate_phone_superscript_digits:
  "validate_phone (replicate 7 (CHR 0xB2)) = (True, [])
   \<and> \<not> list_all ascii_digit (filter (\<lambda>c. \<not> separator c) (replicate 7 (CHR 0xB2)))"
  by code_simp

text \<open>What the code accepts, with the digits of \<open>str.isdigit\<close>.\<close>

lemma validate_phone_accepts_iff:
  "fst (validate_phone phone) \<longleftrightarrow>
     phone = [] \<or> (7 \<le> length (filter (\<lambda>c. \<not> separator c) phone)
                    \<and> list_all py_isdigit (filter (\<lambda>c. \<not> separator c) phone))"
  by (auto simp: validate_phone_def isdigit_def Let_def)

section \<open>Properties of the pipelines\<close>

subsection \<open>Rejection of a blank candidate name\<close>

lemma strip_Nil: "strip [] = []" by (simp add: strip_def)

lemma validate_candidate_name_short:
  "length (strip name) < 2 \<Longrightarrow>
   validate_candidate_name name = (False, ''Candidate name is required (at least 2 characters)'')"
  by (simp add: validate_candidate_name_def)

text \<open>
  C7. When the stripped candidate name has fewer than two characters, in particular when
  the name is empty or only whitespace, the submit flow of app\_with\_progress.py answers
  with the validation error, leaves no payload, so that \<open>execute_ranking\<close> returns at
  once, and makes no request and no save. The pipeline of app\_gdpr\_compliant.py, which
  only asks for a name that is not blank, does the same for an empty or whitespace-only
  name.
\<close>

theorem blank_name_is_rejected:
  assumes "length (strip cand_name) < 2"
  shows "submit_click rend env N cand_name cand_id cand_email cand_phone jd_t cv_t gh li port fb other db
           = (''Candidate name is required (at least 2 characters)'',
              Inr (''Error: No payload'', [], [], [], ''<p style='color: red;'>No data available</p>''),
              db, [])
       \<and> (strip cand_name = [] \<longrightarrow>
            rank_cv_with_social_and_flowise rend env N jd_title jd_t cv_t cand_name cand_email cand_phone
                gh li port fb other evaluate_social db
              = ((PNone, PStr ''Candidate name is required'', [], [], [], []), db, []))"
proof -
  have v: "validate_and_submit cand_name cand_id cand_email cand_phone jd_t cv_t gh li port fb other
           = ([], ''Candidate name is required (at least 2 characters)'', [], [])"
    unfolding validate_and_submit_def using validate_candidate_name_short [OF assms] by simp
  have e: "execute_ranking rend env N [] db
           = (Inr (''Error: No payload'', [], [], [], ''<p style='color: red;'>No data available</p>''), db, [])"
    unfolding execute_ranking_def by simp
  show ?thesis
    unfolding submit_click_def v using e by (simp add: rank_cv_with_social_and_flowise_def)
qed

theorem blank_name_is_rejected_witness:
  "length (strip ''   '') < 2
   \<and> strip ''   '' = []
   \<and> submit_click blank_rendering
        \<lparr>rank_reply = Response 200 ''{}'' (Inr [(''match_score'', PFloat (72 / 100))]),
         flowise_reply = Raises Timeout, clock = 1000, wall_clock = ''2026-01-01 10:00''\<rparr> 5
        ''   '' [] [] [] ''A job description of some length'' ''A curriculum vitae of some length''
        [] [] [] [] [] init_database
      = (''Candidate name is required (at least 2 characters)'',
         Inr (''Error: No payload'', [], [], [], ''<p style='color: red;'>No data available</p>''),
         init_database, [])
   \<and> rank_cv_with_social_and_flowise blank_rendering
        \<lparr>rank_reply = Response 200 ''{}'' (Inr [(''match_score'', PFloat (72 / 100))]),
         flowise_reply = Raises Timeout, clock = 1000, wall_clock = ''2026-01-01 10:00''\<rparr> 5
        ''Engineer'' ''A job description of some length'' ''A curriculum vitae of some length''
        ''   '' [] [] [] [] [] [] [] True init_database
      = ((PNone, PStr ''Candidate name is required'', [], [], [], []), init_database, [])"
proof -
  have h: "length (strip ''   '') < 2" by code_simp
  have h': "strip ''   '' = []" by code_simp
  show ?thesis using h h' blank_name_is_rejected [OF h] by simp
qed

subsection \<open>A failed scoring request in \<open>execute_ranking\<close>\<close>

lemma ranking_error_error_only: "error_only (ranking_error e)"
  by (cases e) (simp_all add: error_only_def has_key_def)

lemma status_error_only: "error_only [(''error'', m), (''status_code'', c)]"
  by (simp add: error_only_def has_key_def)

lemma call_ranking_api_failed:
  assumes "request_failed (rank_reply env)"
  shows "error_only (fst (call_ranking_api env payload))"
proof (cases "rank_reply env")
  case (Raises e)
  then show ?thesis
    by (simp add: call_ranking_api_def ranking_error_error_only split: sum.splits)
next
  case (Response status_code body json)
  with assms have "status_code \<noteq> 200" by simp
  then show ?thesis using Response
    by (simp add: call_ranking_api_def ranking_error_error_only status_error_only
          split: sum.splits)
qed

lemma format_percent_zero: "format_percent (Suc 0) (PInt 0) = Inr ''0.0%''"
  by code_simp

lemma save_arguments_error_only:
  assumes "error_only r"
  shows "save_arguments r payload_dict [] =
           Inr [dict_get payload_dict ''candidate_name'' (PStr ''Unknown''), PStr ''Job Position'',
                PInt 0, PStr ''Match score: 0.0%'', PDict [], PDict []]"
  using assms
  by (simp add: save_arguments_def error_only_def dict_get_def bind_def format_percent_zero Let_def)

text \<open>
  C1 fails in \<open>execute_ranking\<close>. For every payload that is not empty and whose texts
  have a length, and every scoring request that fails, the function returns the error
  response and then calls
  \<open>save_search_result\<close>, with the score 0 and the recommendation
  \<open>Match score: 0.0%\<close>: the save is not guarded by the error test that guards the
  social evaluation.
\<close>

theorem execute_ranking_saves_after_failed_scoring:
  assumes "payload_dict \<noteq> []" and "request_failed (rank_reply env)"
    and "logged_lengths payload_dict = Inr n"
  shows "case execute_ranking rend env N payload_dict db of
           (out, db', calls) \<Rightarrow>
             (\<exists>baseline social delta response html.
                 out = Inr (baseline, social, delta, response, html) \<and> has_key response ''error'')
             \<and> calls \<noteq> []
             \<and> last calls = SaveSearchResult
                   [dict_get payload_dict ''candidate_name'' (PStr ''Unknown''), PStr ''Job Position'',
                    PInt 0, PStr ''Match score: 0.0%'', PDict [], PDict []]
             \<and> db' = save_from_arguments N (clock env)
                   [dict_get payload_dict ''candidate_name'' (PStr ''Unknown''), PStr ''Job Position'',
                    PInt 0, PStr ''Match score: 0.0%'', PDict [], PDict []] db"
proof -
  obtain response calls where c: "call_ranking_api env payload_dict = (response, calls)"
    by (cases "call_ranking_api env payload_dict") auto
  have eo: "error_only response"
    using call_ranking_api_failed [OF assms(2), of payload_dict] c by simp
  then have hk: "has_key response ''error''" by (simp add: error_only_def)
  obtain b s d where f: "format_results rend response = (b, s, d)"
    by (cases "format_results rend response") auto
  show ?thesis
    unfolding execute_ranking_def
    using assms(1,3) c hk f save_arguments_error_only [OF eo, of payload_dict]
    by (simp add: Let_def)
qed

theorem execute_ranking_saves_after_failed_scoring_witness:
  "prepare_payload ''A job description of some length'' ''A curriculum vitae of some length''
       ''Jane Doe'' [] [] [] [] [] [] [] [] \<noteq> []
   \<and> request_failed (Response 500 ''Internal Server Error'' (Inl (Exception ''JSONDecodeError'')))
   \<and> logged_lengths (prepare_payload ''A job description of some length''
         ''A curriculum vitae of some length'' ''Jane Doe'' [] [] [] [] [] [] [] []) = Inr 32
   \<and> snd (execute_ranking blank_rendering
        \<lparr>rank_reply = Response 500 ''Internal Server Error'' (Inl (Exception ''JSONDecodeError'')),
         flowise_reply = Raises Timeout, clock = 1000, wall_clock = []\<rparr> 5
        (prepare_payload ''A job description of some length'' ''A curriculum vitae of some length''
           ''Jane Doe'' [] [] [] [] [] [] [] [])
        init_database)
     = (\<lparr>search_history =
            [\<lparr>col_id = 1, col_timestamp = 1000, col_candidate_name = PStr ''Jane Doe'',
              col_job_title = PStr ''Job Position'', col_match_score = PInt 0,
              col_recommendation = PStr ''Match score: 0.0%'', col_social_profiles = PDict [],
              col_flowise_response = None, col_notes = PStr []\<rparr>],
          sqlite_sequence = 1\<rparr>,
        [RankingRequest
           (prepare_payload ''A job description of some length'' ''A curriculum vitae of some length''
              ''Jane Doe'' [] [] [] [] [] [] [] []),
         SaveSearchResult [PStr ''Jane Doe'', PStr ''Job Position'', PInt 0,
                           PStr ''Match score: 0.0%'', PDict [], PDict []]])"
proof -
  let ?p = "prepare_payload ''A job description of some length'' ''A curriculum vitae of some length''
       ''Jane Doe'' [] [] [] [] [] [] [] []"
  let ?env = "\<lparr>rank_reply = Response 500 ''Internal Server Error'' (Inl (Exception ''JSONDecodeError'')),
         flowise_reply = Raises Timeout, clock = 1000, wall_clock = []\<rparr>"
  have h1: "?p \<noteq> []" by (simp add: prepare_payload_def Let_def)
  have h2: "request_failed (rank_reply ?env)" by simp
  have h3: "logged_lengths ?p = Inr 32" by code_simp
  have ev: "snd (snd (execute_ranking blank_rendering ?env 5 ?p init_database))
     = [RankingRequest ?p,
         SaveSearchResult [PStr ''Jane Doe'', PStr ''Job Position'', PInt 0,
                           PStr ''Match score: 0.0%'', PDict [], PDict []]]"
    by code_simp
  have nm: "dict_get ?p ''candidate_name'' (PStr ''Unknown'') = PStr ''Jane Doe''" by code_simp
  have sv: "save_from_arguments 5 1000 [PStr ''Jane Doe'', PStr ''Job Position'', PInt 0,
                           PStr ''Match score: 0.0%'', PDict [], PDict []] init_database
            = \<lparr>search_history =
            [\<lparr>col_id = 1, col_timestamp = 1000, col_candidate_name = PStr ''Jane Doe'',
              col_job_title = PStr ''Job Position'', col_match_score = PInt 0,
              col_recommendation = PStr ''Match score: 0.0%'', col_social_profiles = PDict [],
              col_flowise_response = None, col_notes = PStr []\<rparr>],
          sqlite_sequence = 1\<rparr>"
    by code_simp
  from execute_ranking_saves_after_failed_scoring [OF h1 h2 h3, where rend = blank_rendering and N = 5 and db = init_database]
  have "fst (snd (execute_ranking blank_rendering ?env 5 ?p init_database))
        = save_from_arguments 5 1000 [dict_get ?p ''candidate_name'' (PStr ''Unknown''), PStr ''Job Position'',
                    PInt 0, PStr ''Match score: 0.0%'', PDict [], PDict []] init_database"
    by (auto split: prod.splits)
  then have "fst (snd (execute_ranking blank_rendering ?env 5 ?p init_database))
        = \<lparr>search_history =
            [\<lparr>col_id = 1, col_timestamp = 1000, col_candidate_name = PStr ''Jane Doe'',
              col_job_title = PStr ''Job Position'', col_match_score = PInt 0,
              col_recommendation = PStr ''Match score: 0.0%'', col_social_profiles = PDict [],
              col_flowise_response = None, col_notes = PStr []\<rparr>],
          sqlite_sequence = 1\<rparr>"
    unfolding nm sv .
  then show ?thesis using h1 h3 ev by (simp add: prod_eq_iff)
qed


subsection \<open>The social profile mapping\<close>

lemma map_of_filter_truthy:
  "distinct (map fst xs) \<Longrightarrow>
   map_of (filter (\<lambda>(k, v). truthy v) xs) k =
     (case map_of xs k of None \<Rightarrow> None | Some v \<Rightarrow> if truthy v then Some v else None)"
proof (induction xs)
  case Nil then show ?case by simp
next
  case (Cons p xs)
  obtain k' v' where p: "p = (k', v')" by (cases p)
  have none: "k' = k \<Longrightarrow> map_of (filter (\<lambda>(k, v). truthy v) xs) k = None"
    using Cons.prems p by (auto simp: map_of_eq_None_iff image_iff)
  show ?case using Cons p none by (auto split: option.splits)
qed

lemma set_update_subset: "set (AList.update k v xs) \<subseteq> insert (k, v) (set xs)"
  by (induction xs) auto


lemma social_profiles_of_unfold:
  fixes email phone gh li po fb other
  defines "opt \<equiv> \<lambda>x. if strip x \<noteq> [] then PStr (strip x) else PNone"
  defines "xs \<equiv> [(''email'', opt email), (''phone'', opt phone), (''github'', opt gh),
                   (''linkedin'', opt li), (''portfolio'', opt po), (''facebook'', opt fb)]"
  shows "social_profiles_of email phone gh li po fb other
            = (if strip other \<noteq> [] then AList.update ''other'' (PStr (strip other))
                    (filter (\<lambda>(k, v). truthy v) xs)
               else filter (\<lambda>(k, v). truthy v) xs)"
  unfolding social_profiles_of_def Let_def xs_def opt_def by (rule refl)


lemma filtered_update_values:
  assumes "(k, v) \<in> set (if c then AList.update k0 w (filter (\<lambda>(k, v). truthy v) xs)
                            else filter (\<lambda>(k, v). truthy v) xs)"
    and "\<And>k v. (k, v) \<in> set xs \<Longrightarrow> truthy v \<Longrightarrow> P v" and "c \<Longrightarrow> P w"
  shows "P v"
proof (cases c)
  case True
  then have "(k, v) \<in> insert (k0, w) (set (filter (\<lambda>(k, v). truthy v) xs))"
    using assms(1) set_update_subset by fastforce
  then show ?thesis using assms(2,3) True by auto
next
  case False
  then show ?thesis using assms(1,2) by auto
qed

lemma social_profiles_of_values:
  assumes "(k, v) \<in> set (social_profiles_of email phone gh li po fb other)"
  shows "\<exists>s. v = PStr s \<and> s \<noteq> []"
proof (rule filtered_update_values [OF assms [unfolded social_profiles_of_unfold]])
  fix k v
  assume "(k, v) \<in> set [(''email'', if strip email \<noteq> [] then PStr (strip email) else PNone),
             (''phone'', if strip phone \<noteq> [] then PStr (strip phone) else PNone),
             (''github'', if strip gh \<noteq> [] then PStr (strip gh) else PNone),
             (''linkedin'', if strip li \<noteq> [] then PStr (strip li) else PNone),
             (''portfolio'', if strip po \<noteq> [] then PStr (strip po) else PNone),
             (''facebook'', if strip fb \<noteq> [] then PStr (strip fb) else PNone)]"
  then have "\<exists>x. v = (if strip x \<noteq> [] then PStr (strip x) else PNone)"
    by (simp only: list.set insert_iff empty_iff prod.inject) metis
  then obtain x where v: "v = (if strip x \<noteq> [] then PStr (strip x) else PNone)" ..
  assume "truthy v"
  with v show "\<exists>s. v = PStr s \<and> s \<noteq> []" by (cases "strip x = []") auto
next
  assume "strip other \<noteq> []"
  then show "\<exists>s. PStr (strip other) = PStr s \<and> s \<noteq> []" by simp
qed


lemma filtered_update_lookup:
  assumes "distinct (map fst xs)"
  shows "map_of (if c then AList.update k0 w (filter (\<lambda>(k, v). truthy v) xs)
                 else filter (\<lambda>(k, v). truthy v) xs) k =
           (if c \<and> k = k0 then Some w
            else case map_of xs k of None \<Rightarrow> None | Some v \<Rightarrow> if truthy v then Some v else None)"
  using map_of_filter_truthy [OF assms, of k] by (simp add: update_conv')

lemma social_profiles_of_lookup_gen:
  "map_of (social_profiles_of email phone gh li po fb other) k =
     (if strip other \<noteq> [] \<and> k = ''other'' then Some (PStr (strip other))
      else case map_of [(''email'', if strip email \<noteq> [] then PStr (strip email) else PNone),
             (''phone'', if strip phone \<noteq> [] then PStr (strip phone) else PNone),
             (''github'', if strip gh \<noteq> [] then PStr (strip gh) else PNone),
             (''linkedin'', if strip li \<noteq> [] then PStr (strip li) else PNone),
             (''portfolio'', if strip po \<noteq> [] then PStr (strip po) else PNone),
             (''facebook'', if strip fb \<noteq> [] then PStr (strip fb) else PNone)] k of
             None \<Rightarrow> None | Some v \<Rightarrow> if truthy v then Some v else None)"
  unfolding social_profiles_of_unfold
  by (rule filtered_update_lookup) simp

lemma prepare_payload_profiles:
  "dict_get (prepare_payload jd_text cv_text candidate_name candidate_id candidate_email
       candidate_phone gh li po fb ot) ''social_media_profiles'' PNone =
     PDict (AList.update ''total_links''
              (PInt (int (sum_list (map (list_len \<circ> snd)
                 (AList.update ''presence_score''
                    (PFloat (min (of_nat (num_links_of (build_social_profiles gh li po fb ot)) / 4) 1))
                    (build_social_profiles gh li po fb ot))))))
              (AList.update ''presence_score''
                 (PFloat (min (of_nat (num_links_of (build_social_profiles gh li po fb ot)) / 4) 1))
                 (build_social_profiles gh li po fb ot)))"
  by (simp add: prepare_payload_def dict_get_def Let_def)

lemma build_social_profiles_values:
  assumes "(k, v) \<in> set (build_social_profiles gh li po fb ot)"
  shows "\<exists>url. v = link_list url"
  using assms unfolding build_social_profiles_def by auto

lemma link_list_not_empty_string:
  "link_list url \<noteq> PStr [] \<and> link_list url \<noteq> PNone \<and> link_list url \<noteq> PList [PStr []]"
  by (simp add: link_list_def)

text \<open>
  C5, as the code has it. The mapping that \<open>rank_cv_with_social_and_flowise\<close> builds
  holds a key exactly for the fields that are not blank, with the stripped text as the
  value, so no value of it is empty or absent. The mapping that \<open>prepare_payload\<close>
  builds always holds all five provider keys: the value is the list of the one given
  link, and the empty list for a field left empty; no value is an empty string,
  \<open>None\<close> or a list of an empty string.
\<close>

theorem social_profile_mappings:
  "(let sp = social_profiles_of email phone github_url linkedin_url portfolio_url facebook_url
               other_social
    in map_of sp ''email'' = (if strip email \<noteq> [] then Some (PStr (strip email)) else None)
     \<and> map_of sp ''phone'' = (if strip phone \<noteq> [] then Some (PStr (strip phone)) else None)
     \<and> map_of sp ''github'' =
         (if strip github_url \<noteq> [] then Some (PStr (strip github_url)) else None)
     \<and> map_of sp ''linkedin'' =
         (if strip linkedin_url \<noteq> [] then Some (PStr (strip linkedin_url)) else None)
     \<and> map_of sp ''portfolio'' =
         (if strip portfolio_url \<noteq> [] then Some (PStr (strip portfolio_url)) else None)
     \<and> map_of sp ''facebook'' =
         (if strip facebook_url \<noteq> [] then Some (PStr (strip facebook_url)) else None)
     \<and> map_of sp ''other'' =
         (if strip other_social \<noteq> [] then Some (PStr (strip other_social)) else None)
     \<and> (\<forall>(k, v) \<in> set sp. \<exists>s. v = PStr s \<and> s \<noteq> []))
   \<and> (\<exists>sp. dict_get (prepare_payload jd_text cv_text candidate_name candidate_id email phone
                 github_url linkedin_url portfolio_url facebook_url other_social)
               ''social_media_profiles'' PNone = PDict sp
          \<and> map_of sp ''github'' = Some (PList (if github_url = [] then [] else [PStr github_url]))
          \<and> map_of sp ''linkedin'' = Some (PList (if linkedin_url = [] then [] else [PStr linkedin_url]))
          \<and> map_of sp ''portfolio'' = Some (PList (if portfolio_url = [] then [] else [PStr portfolio_url]))
          \<and> map_of sp ''facebook'' = Some (PList (if facebook_url = [] then [] else [PStr facebook_url]))
          \<and> map_of sp ''other'' = Some (PList (if other_social = [] then [] else [PStr other_social]))
          \<and> (\<forall>(k, v) \<in> set sp. v \<noteq> PStr [] \<and> v \<noteq> PNone \<and> v \<noteq> PList [PStr []]))"
proof -
  let ?sp = "social_profiles_of email phone github_url linkedin_url portfolio_url facebook_url
               other_social"
  have g1: "map_of ?sp ''email'' = (if strip email \<noteq> [] then Some (PStr (strip email)) else None)"
    unfolding social_profiles_of_lookup_gen by simp
  have g2: "map_of ?sp ''phone'' = (if strip phone \<noteq> [] then Some (PStr (strip phone)) else None)"
    unfolding social_profiles_of_lookup_gen by simp
  have g3: "map_of ?sp ''github'' =
         (if strip github_url \<noteq> [] then Some (PStr (strip github_url)) else None)"
    unfolding social_profiles_of_lookup_gen by simp
  have g4: "map_of ?sp ''linkedin'' =
         (if strip linkedin_url \<noteq> [] then Some (PStr (strip linkedin_url)) else None)"
    unfolding social_profiles_of_lookup_gen by simp
  have g5: "map_of ?sp ''portfolio'' =
         (if strip portfolio_url \<noteq> [] then Some (PStr (strip portfolio_url)) else None)"
    unfolding social_profiles_of_lookup_gen by simp
  have g6: "map_of ?sp ''facebook'' =
         (if strip facebook_url \<noteq> [] then Some (PStr (strip facebook_url)) else None)"
    unfolding social_profiles_of_lookup_gen by simp
  have g7: "map_of ?sp ''other'' =
         (if strip other_social \<noteq> [] then Some (PStr (strip other_social)) else None)"
    unfolding social_profiles_of_lookup_gen by simp
  have g8: "\<forall>(k, v) \<in> set ?sp. \<exists>s. v = PStr s \<and> s \<noteq> []"
    using social_profiles_of_values by blast
  let ?b = "build_social_profiles github_url linkedin_url portfolio_url facebook_url other_social"
  define ps where "ps = PFloat (min (of_nat (num_links_of ?b) / 4) 1)"
  define tl where "tl = PInt (int (sum_list (map (list_len \<circ> snd) (AList.update ''presence_score'' ps ?b))))"
  define sp where "sp = AList.update ''total_links'' tl (AList.update ''presence_score'' ps ?b)"
  have p0: "dict_get (prepare_payload jd_text cv_text candidate_name candidate_id email phone
                 github_url linkedin_url portfolio_url facebook_url other_social)
               ''social_media_profiles'' PNone = PDict sp"
    unfolding sp_def tl_def ps_def by (rule prepare_payload_profiles)
  have look: "map_of sp k = (if k = ''total_links'' then Some tl
                else if k = ''presence_score'' then Some ps else map_of ?b k)" for k
    unfolding sp_def by (simp add: update_conv')
  have p1: "map_of sp ''github'' = Some (PList (if github_url = [] then [] else [PStr github_url]))"
    unfolding look by (simp add: build_social_profiles_def link_list_def)
  have p2: "map_of sp ''linkedin'' = Some (PList (if linkedin_url = [] then [] else [PStr linkedin_url]))"
    unfolding look by (simp add: build_social_profiles_def link_list_def)
  have p3: "map_of sp ''portfolio'' = Some (PList (if portfolio_url = [] then [] else [PStr portfolio_url]))"
    unfolding look by (simp add: build_social_profiles_def link_list_def)
  have p4: "map_of sp ''facebook'' = Some (PList (if facebook_url = [] then [] else [PStr facebook_url]))"
    unfolding look by (simp add: build_social_profiles_def link_list_def)
  have p5: "map_of sp ''other'' = Some (PList (if other_social = [] then [] else [PStr other_social]))"
    unfolding look by (simp add: build_social_profiles_def link_list_def)
  have p6: "\<forall>(k, v) \<in> set sp. v \<noteq> PStr [] \<and> v \<noteq> PNone \<and> v \<noteq> PList [PStr []]"
  proof (clarify)
    fix k v assume "(k, v) \<in> set sp"
    then have "(k, v) \<in> insert (''total_links'', tl) (set (AList.update ''presence_score'' ps ?b))"
      unfolding sp_def using set_update_subset [of "''total_links''" tl] by blast
    then have "(k, v) \<in> insert (''total_links'', tl) (insert (''presence_score'', ps) (set ?b))"
      using set_update_subset [of "''presence_score''" ps ?b] by blast
    then consider "v = tl" | "v = ps" | "(k, v) \<in> set ?b" by auto
    then show "v \<noteq> PStr [] \<and> v \<noteq> PNone \<and> v \<noteq> PList [PStr []]"
    proof cases
      case 1 then show ?thesis by (simp add: tl_def)
    next
      case 2 then show ?thesis by (simp add: ps_def)
    next
      case 3
      then obtain url where "v = link_list url" using build_social_profiles_values by blast
      then show ?thesis using link_list_not_empty_string by simp
    qed
  qed
  have second: "\<exists>sp. dict_get (prepare_payload jd_text cv_text candidate_name candidate_id email phone
                 github_url linkedin_url portfolio_url facebook_url other_social)
               ''social_media_profiles'' PNone = PDict sp
          \<and> map_of sp ''github'' = Some (PList (if github_url = [] then [] else [PStr github_url]))
          \<and> map_of sp ''linkedin'' = Some (PList (if linkedin_url = [] then [] else [PStr linkedin_url]))
          \<and> map_of sp ''portfolio'' = Some (PList (if portfolio_url = [] then [] else [PStr portfolio_url]))
          \<and> map_of sp ''facebook'' = Some (PList (if facebook_url = [] then [] else [PStr facebook_url]))
          \<and> map_of sp ''other'' = Some (PList (if other_social = [] then [] else [PStr other_social]))
          \<and> (\<forall>(k, v) \<in> set sp. v \<noteq> PStr [] \<and> v \<noteq> PNone \<and> v \<noteq> PList [PStr []])"
    using p0 p1 p2 p3 p4 p5 p6 by blast
  show ?thesis unfolding Let_def using g1 g2 g3 g4 g5 g6 g7 g8 second by blast
qed

theorem social_profile_mappings_witness:
  "map_of (social_profiles_of ''jane@example.org'' [] ''https://github.com/jane'' [] ''  '' [] [])
      ''github'' = Some (PStr ''https://github.com/jane'')
   \<and> map_of (social_profiles_of ''jane@example.org'' [] ''https://github.com/jane'' [] ''  '' [] [])
      ''portfolio'' = None
   \<and> map_of (social_profiles_of ''jane@example.org'' [] ''https://github.com/jane'' [] ''  '' [] [])
      ''linkedin'' = None"
proof -
  have s1: "strip ''https://github.com/jane'' = ''https://github.com/jane''" by code_simp
  have s2: "strip ''  '' = []" by code_simp
  have s3: "strip [] = []" by code_simp
  show ?thesis
    using social_profile_mappings [of "''jane@example.org''" "[]" "''https://github.com/jane''" "[]"
        "''  ''" "[]" "[]"]
    unfolding Let_def s1 s2 s3 by simp
qed

text \<open>With no link given, the payload of \<open>prepare_payload\<close> holds the key \<open>github\<close>
  with the empty list as its value.\<close>

theorem social_profile_mappings_counterexample:
  "py_get (dict_get (prepare_payload ''A job description of some length''
              ''A curriculum vitae of some length'' ''Jane Doe'' [] [] [] [] [] [] [] [])
            ''social_media_profiles'' PNone) ''github'' (PStr ''no such key'') = Inr (PList [])"
  by code_simp


subsection \<open>The social evaluation clients\<close>

lemma flowise_error_failure: "failure_variant (flowise_error e)"
  by (cases e) (simp_all add: failure_variant_def has_key_def dict_get_def)

lemma call_flowise_evaluation_failed:
  assumes "request_failed (flowise_reply env)"
  shows "failure_variant (fst (call_flowise_evaluation env a b c d e f g h))"
proof (cases "flowise_payload a b c d e f g h")
  case (Inl x)
  then show ?thesis by (simp add: call_flowise_evaluation_def flowise_error_failure)
next
  case (Inr p)
  show ?thesis
  proof (cases p)
    case None
    then show ?thesis using Inr
      by (simp add: call_flowise_evaluation_def failure_variant_def has_key_def dict_get_def)
  next
    case (Some payload)
    show ?thesis
    proof (cases "flowise_reply env")
      case (Raises x)
      then show ?thesis using Inr Some
        by (simp add: call_flowise_evaluation_def flowise_error_failure)
    next
      case (Response status_code body json)
      with assms have "status_code \<noteq> 200" by simp
      then show ?thesis using Inr Some Response
        by (simp add: call_flowise_evaluation_def failure_variant_def has_key_def dict_get_def)
    qed
  qed
qed

lemma call_flowise_evaluation_logged:
  "FlowiseEvaluation \<in> set (snd (call_flowise_evaluation env a b c d e f g h))"
  by (simp add: call_flowise_evaluation_def split: sum.splits option.splits http_reply.splits)

lemma evaluate_with_flowise_calls:
  "snd (evaluate_with_flowise_via_be env question)
     = [FlowiseEvaluation, FlowiseRequest [(''question'', PStr question)]]"
  by (simp add: evaluate_with_flowise_via_be_def Let_def split: sum.splits http_reply.splits)

lemma evaluate_with_flowise_failed:
  assumes "request_failed (flowise_reply env)"
  shows "\<exists>message. fst (evaluate_with_flowise_via_be env question) = evaluation_failure message"
proof (cases "flowise_reply env")
  case (Raises x)
  then have "fst (evaluate_with_flowise_via_be env question) = evaluation_failure (PStr (str_of_exn x))"
    by (simp add: evaluate_with_flowise_via_be_def Let_def)
  then show ?thesis by blast
next
  case (Response status_code body json)
  with assms have "status_code \<noteq> 200" by simp
  then have "fst (evaluate_with_flowise_via_be env question)
      = evaluation_failure (PStr (''BE returned '' @ str_of_int status_code @ '': '' @ body))"
    using Response by (simp add: evaluate_with_flowise_via_be_def Let_def)
  then show ?thesis by blast
qed

lemma evaluate_social_profiles_calls:
  "snd (evaluate_social_profiles rend env evaluate_social social_profiles query_fields explanation)
     = (if evaluate_social \<and> social_profiles \<noteq> []
        then [FlowiseEvaluation, FlowiseRequest [(''question'', PStr (build_query rend query_fields))]]
        else [])"
proof -
  obtain r c where e: "evaluate_with_flowise_via_be env (build_query rend query_fields) = (r, c)"
    by (cases "evaluate_with_flowise_via_be env (build_query rend query_fields)") auto
  then have "c = [FlowiseEvaluation, FlowiseRequest [(''question'', PStr (build_query rend query_fields))]]"
    using evaluate_with_flowise_calls [of env "build_query rend query_fields"] by simp
  then show ?thesis using e by (simp add: evaluate_social_profiles_def Let_def)
qed

lemma evaluate_social_profiles_skipped:
  assumes "\<not> (evaluate_social \<and> social_profiles \<noteq> [])"
  shows "evaluate_social_profiles rend env evaluate_social social_profiles query_fields explanation
           = (Inr (explanation, PFloat 0, []), [])"
  using assms by (auto simp: evaluate_social_profiles_def)

lemma evaluate_social_profiles_failed:
  assumes "evaluate_social" and "social_profiles \<noteq> []" and "request_failed (flowise_reply env)"
  shows "\<exists>message. fst (evaluate_social_profiles rend env evaluate_social social_profiles
                            query_fields explanation)
           = Inr (explanation, PFloat 0, ''Flowise evaluation skipped: '' @ py_str rend message)"
proof -
  obtain message where m: "fst (evaluate_with_flowise_via_be env (build_query rend query_fields))
      = evaluation_failure message"
    using evaluate_with_flowise_failed [OF assms(3)] by blast
  have c: "py_contains ''error'' (evaluation_failure message) = Inr True"
    by (simp add: evaluation_failure_def has_key_def)
  have g: "py_get (evaluation_failure message) ''error'' (PStr ''Unknown error'') = Inr message"
    by (simp add: evaluation_failure_def dict_get_def)
  obtain r cs where e: "evaluate_with_flowise_via_be env (build_query rend query_fields) = (r, cs)"
    by (cases "evaluate_with_flowise_via_be env (build_query rend query_fields)") auto
  then have r: "r = evaluation_failure message" using m by simp
  have "fst (evaluate_social_profiles rend env evaluate_social social_profiles query_fields explanation)
           = Inr (explanation, PFloat 0, ''Flowise evaluation skipped: '' @ py_str rend message)"
    using assms(1,2) e c g unfolding r
    by (simp add: evaluate_social_profiles_def Let_def bind_def)
  then show ?thesis by blast
qed

subsection \<open>The steps of \<open>rank_cv_with_social_and_flowise\<close>\<close>

lemma ranking_result_Some:
  assumes "ranking_result reply = Some result"
  shows "\<exists>body. reply = Response 200 body (Inr result)"
  using assms by (cases reply) (auto split: if_splits sum.splits)

lemma evaluate_and_save_calls:
  assumes "render_explanation rend result = Inr explanation"
  shows "\<exists>more. snd (snd (evaluate_and_save rend env N jd_title candidate_name evaluate_social
                          social_profiles query_fields result db))
            = snd (evaluate_social_profiles rend env evaluate_social social_profiles query_fields
                     explanation) @ more
          \<and> FlowiseEvaluation \<notin> set more"
proof -
  obtain r cs where e: "evaluate_social_profiles rend env evaluate_social social_profiles
      query_fields explanation = (r, cs)"
    by (cases "evaluate_social_profiles rend env evaluate_social social_profiles
      query_fields explanation") auto
  show ?thesis
  proof (cases r)
    case (Inl x)
    then have "snd (snd (evaluate_and_save rend env N jd_title candidate_name evaluate_social
                          social_profiles query_fields result db)) = cs @ []"
      using assms e by (simp add: evaluate_and_save_def Let_def)
    then show ?thesis using e by auto
  next
    case (Inr t)
    obtain ex sc fe where t: "t = (ex, sc, fe)" by (cases t) auto
    have "snd (snd (evaluate_and_save rend env N jd_title candidate_name evaluate_social
                          social_profiles query_fields result db))
          = cs @ [SaveSearchResult [PStr candidate_name, PStr jd_title,
                    dict_get result ''match_score'' (PInt 0),
                    dict_get result ''recommendation'' (PStr ''No recommendation''),
                    PDict social_profiles, PDict [(''presence_score'', sc)]]]"
      using assms e Inr t by (simp add: evaluate_and_save_def Let_def split: sum.splits)
    then show ?thesis using e by auto
  qed
qed

lemma evaluate_and_save_no_explanation:
  assumes "render_explanation rend result = Inl e"
  shows "snd (snd (evaluate_and_save rend env N jd_title candidate_name evaluate_social
                          social_profiles query_fields result db)) = []"
  using assms by (simp add: evaluate_and_save_def Let_def)

lemma evaluate_and_save_completed:
  assumes r: "render_explanation rend result = Inr explanation"
    and s: "fst (evaluate_social_profiles rend env evaluate_social social_profiles query_fields
                  explanation) = Inr (explanation', score, flowise_evaluation)"
    and h: "\<forall>rows. \<exists>h. render_history rend rows = Inr h"
  shows "\<exists>social_display history_display db'.
           evaluate_and_save rend env N jd_title candidate_name evaluate_social social_profiles
               query_fields result db
           = ((dict_get result ''match_score'' (PInt 0),
               dict_get result ''recommendation'' (PStr ''No recommendation''),
               explanation', social_display, flowise_evaluation, history_display),
              db',
              snd (evaluate_social_profiles rend env evaluate_social social_profiles query_fields
                     explanation)
              @ [SaveSearchResult [PStr candidate_name, PStr jd_title,
                    dict_get result ''match_score'' (PInt 0),
                    dict_get result ''recommendation'' (PStr ''No recommendation''),
                    PDict social_profiles, PDict [(''presence_score'', score)]]])"
proof -
  obtain cs where e: "evaluate_social_profiles rend env evaluate_social social_profiles
      query_fields explanation = (Inr (explanation', score, flowise_evaluation), cs)"
    using s by (cases "evaluate_social_profiles rend env evaluate_social social_profiles
      query_fields explanation") auto
  obtain H where H: "\<And>rows. render_history rend rows = Inr (H rows)"
    using h by metis
  show ?thesis
    by (simp add: evaluate_and_save_def Let_def r e H)
qed

lemma evaluate_and_save_saved:
  assumes "render_explanation rend result = Inr explanation"
    and "evaluate_social_profiles rend env evaluate_social social_profiles query_fields explanation
           = (Inr (ex, sc, fe), cs)"
  shows "snd (snd (evaluate_and_save rend env N jd_title candidate_name evaluate_social
                          social_profiles query_fields result db))
          = cs @ [SaveSearchResult [PStr candidate_name, PStr jd_title,
                    dict_get result ''match_score'' (PInt 0),
                    dict_get result ''recommendation'' (PStr ''No recommendation''),
                    PDict social_profiles, PDict [(''presence_score'', sc)]]]"
  using assms by (simp add: evaluate_and_save_def Let_def split: sum.splits)

lemma gdpr_scored:
  assumes "strip candidate_name \<noteq> []" and "strip cv_text \<noteq> []" and "strip jd_description \<noteq> []"
    and "ranking_result (rank_reply env) = Some result"
  shows "\<exists>payload query_fields.
           rank_cv_with_social_and_flowise rend env N jd_title jd_description cv_text candidate_name
               email phone gh li po fb other evaluate_social db
           = (case evaluate_and_save rend env N jd_title candidate_name evaluate_social
                     (social_profiles_of email phone gh li po fb other) query_fields result db of
                (out, db', calls) \<Rightarrow> (out, db', RankingRequest payload # calls))"
proof -
  obtain body where "rank_reply env = Response 200 body (Inr result)"
    using ranking_result_Some [OF assms(4)] by blast
  then show ?thesis
    using assms(1-3) unfolding rank_cv_with_social_and_flowise_def Let_def by auto
qed

lemma gdpr_not_scored:
  assumes "strip candidate_name \<noteq> []" and "strip cv_text \<noteq> []" and "strip jd_description \<noteq> []"
    and "ranking_result (rank_reply env) = None"
  shows "\<exists>payload.
           snd (rank_cv_with_social_and_flowise rend env N jd_title jd_description cv_text
                  candidate_name email phone gh li po fb other evaluate_social db)
           = (db, [RankingRequest payload])"
proof (cases "rank_reply env")
  case (Raises x)
  then show ?thesis
    using assms(1-3) unfolding rank_cv_with_social_and_flowise_def Let_def by auto
next
  case (Response status_code body json)
  show ?thesis
  proof (cases "status_code = 200")
    case True
    then obtain e where "json = Inl e" using assms(4) Response by (cases json) auto
    then show ?thesis
      using assms(1-3) Response True unfolding rank_cv_with_social_and_flowise_def Let_def by auto
  next
    case False
    then show ?thesis
      using assms(1-3) Response unfolding rank_cv_with_social_and_flowise_def Let_def by auto
  qed
qed

lemma gdpr_invalid:
  assumes "strip candidate_name = [] \<or> strip cv_text = [] \<or> strip jd_description = []"
  shows "snd (rank_cv_with_social_and_flowise rend env N jd_title jd_description cv_text
                  candidate_name email phone gh li po fb other evaluate_social db)
           = (db, [])"
  using assms unfolding rank_cv_with_social_and_flowise_def by auto

subsection \<open>\<open>execute_ranking\<close> on a payload of \<open>prepare_payload\<close>\<close>

lemma prepared_payload_not_empty:
  "prepare_payload jd_text cv_text candidate_name candidate_id candidate_email candidate_phone
       gh li po fb ot \<noteq> []"
  by (simp add: prepare_payload_def Let_def)

lemma prepared_payload_fields:
  fixes jd_text cv_text candidate_name candidate_id candidate_email candidate_phone gh li po fb ot
  defines "P \<equiv> prepare_payload jd_text cv_text candidate_name candidate_id candidate_email
                   candidate_phone gh li po fb ot"
  shows "dict_get P ''cv_text'' d = PStr cv_text"
    and "dict_get P ''jd_description'' d = PStr jd_text"
    and "dict_get P ''candidate_name'' d = py_or (PStr candidate_name) (PStr ''Unknown'')"
    and "dict_get P ''candidate_email'' d = PStr candidate_email"
    and "dict_get P ''candidate_phone'' d = PStr candidate_phone"
  unfolding P_def by (simp_all add: prepare_payload_def dict_get_def Let_def py_or_def)

lemma first_url_link_list:
  assumes "map_of sp k = Some (link_list url)"
  shows "first_url (PDict sp) k = Inr (PStr url)"
  using assms by (cases "url = []") (simp_all add: first_url_def bind_def dict_get_def link_list_def py_or_def)

lemma prepared_payload_links:
  fixes jd_text cv_text candidate_name candidate_id candidate_email candidate_phone gh li po fb ot
  defines "P \<equiv> prepare_payload jd_text cv_text candidate_name candidate_id candidate_email
                   candidate_phone gh li po fb ot"
  shows "\<exists>sp. dict_get P ''social_media_profiles'' d = PDict sp
           \<and> first_url (PDict sp) ''github'' = Inr (PStr gh)
           \<and> first_url (PDict sp) ''linkedin'' = Inr (PStr li)
           \<and> first_url (PDict sp) ''portfolio'' = Inr (PStr po)
           \<and> first_url (PDict sp) ''facebook'' = Inr (PStr fb)"
proof -
  let ?b = "build_social_profiles gh li po fb ot"
  define ps where "ps = PFloat (min (of_nat (num_links_of ?b) / 4) 1)"
  define tl where "tl = PInt (int (sum_list (map (list_len \<circ> snd) (AList.update ''presence_score'' ps ?b))))"
  define sp where "sp = AList.update ''total_links'' tl (AList.update ''presence_score'' ps ?b)"
  have p0: "dict_get P ''social_media_profiles'' d = PDict sp"
    unfolding P_def sp_def tl_def ps_def by (simp add: prepare_payload_def dict_get_def Let_def)
  have look: "map_of sp k = (if k = ''total_links'' then Some tl
                else if k = ''presence_score'' then Some ps else map_of ?b k)" for k
    unfolding sp_def by (simp add: update_conv')
  have "map_of sp ''github'' = Some (link_list gh)"
    unfolding look by (simp add: build_social_profiles_def)
  moreover have "map_of sp ''linkedin'' = Some (link_list li)"
    unfolding look by (simp add: build_social_profiles_def)
  moreover have "map_of sp ''portfolio'' = Some (link_list po)"
    unfolding look by (simp add: build_social_profiles_def)
  moreover have "map_of sp ''facebook'' = Some (link_list fb)"
    unfolding look by (simp add: build_social_profiles_def)
  ultimately show ?thesis using p0 first_url_link_list by blast
qed

lemma truthy_name_or_unknown: "truthy (py_or (PStr candidate_name) (PStr ''Unknown''))"
  by (simp add: py_or_def)

lemma logged_lengths_prepared:
  "logged_lengths (prepare_payload jd_text cv_text candidate_name candidate_id candidate_email
       candidate_phone gh li po fb ot) = Inr (length jd_text)"
  by (simp add: logged_lengths_def prepared_payload_fields bind_def)

lemma call_ranking_api_prepared:
  fixes jd_text cv_text candidate_name candidate_id candidate_email candidate_phone gh li po fb ot
  defines "P \<equiv> prepare_payload jd_text cv_text candidate_name candidate_id candidate_email
                   candidate_phone gh li po fb ot"
  shows "snd (call_ranking_api env P) = [RankingRequest P]"
    and "ranking_result (rank_reply env) = Some result \<Longrightarrow> fst (call_ranking_api env P) = result"
proof -
  have len: "logged_lengths P = Inr (length jd_text)"
    unfolding P_def by (simp add: logged_lengths_def prepared_payload_fields bind_def)
  show "snd (call_ranking_api env P) = [RankingRequest P]"
    unfolding call_ranking_api_def len
    by (simp split: http_reply.splits sum.splits)
  assume "ranking_result (rank_reply env) = Some result"
  then obtain body where "rank_reply env = Response 200 body (Inr result)"
    using ranking_result_Some by blast
  then show "fst (call_ranking_api env P) = result"
    unfolding call_ranking_api_def len by simp
qed

lemma execute_ranking_scored:
  fixes jd_text cv_text candidate_name candidate_id candidate_email candidate_phone gh li po fb ot
  defines "P \<equiv> prepare_payload jd_text cv_text candidate_name candidate_id candidate_email
                   candidate_phone gh li po fb ot"
  assumes ne: "\<not> has_key (fst (call_ranking_api env P)) ''error''"
  shows "\<exists>baseline social delta html db' more.
           execute_ranking rend env N P db
             = (Inr (baseline, social, delta,
                     AList.update ''flowise_evaluation''
                       (PDict (fst (call_flowise_evaluation env
                          (py_or (PStr candidate_name) (PStr ''Unknown''))
                          (PStr candidate_email) (PStr candidate_phone)
                          (PStr gh) (PStr li) (PStr po) (PStr fb)
                          (dict_get (fst (call_ranking_api env P)) ''match_score'' (PInt 0)))))
                       (fst (call_ranking_api env P)),
                     html),
                db',
                RankingRequest P #
                snd (call_flowise_evaluation env
                          (py_or (PStr candidate_name) (PStr ''Unknown''))
                          (PStr candidate_email) (PStr candidate_phone)
                          (PStr gh) (PStr li) (PStr po) (PStr fb)
                          (dict_get (fst (call_ranking_api env P)) ''match_score'' (PInt 0)))
                @ more)
           \<and> FlowiseEvaluation \<notin> set more"
proof -
  obtain response calls where c: "call_ranking_api env P = (response, calls)"
    by (cases "call_ranking_api env P") auto
  have calls: "calls = [RankingRequest P]"
    using call_ranking_api_prepared(1) [of env jd_text cv_text candidate_name candidate_id
        candidate_email candidate_phone gh li po fb ot] c
    unfolding P_def by simp
  have ne': "\<not> has_key response ''error''" using ne c by simp
  obtain b s d where f: "format_results rend response = (b, s, d)"
    by (cases "format_results rend response") auto
  obtain sp where sp: "dict_get P ''social_media_profiles'' (PDict []) = PDict sp"
      "first_url (PDict sp) ''github'' = Inr (PStr gh)"
      "first_url (PDict sp) ''linkedin'' = Inr (PStr li)"
      "first_url (PDict sp) ''portfolio'' = Inr (PStr po)"
      "first_url (PDict sp) ''facebook'' = Inr (PStr fb)"
    using prepared_payload_links [of jd_text cv_text candidate_name candidate_id
        candidate_email candidate_phone gh li po fb ot "PDict []"]
    unfolding P_def by blast
  have nm: "dict_get P ''candidate_name'' d = py_or (PStr candidate_name) (PStr ''Unknown'')" for d
    unfolding P_def by (rule prepared_payload_fields)
  have em: "dict_get P ''candidate_email'' d = PStr candidate_email" for d
    unfolding P_def by (rule prepared_payload_fields)
  have ph: "dict_get P ''candidate_phone'' d = PStr candidate_phone" for d
    unfolding P_def by (rule prepared_payload_fields)
  have pne: "P \<noteq> []" unfolding P_def by (rule prepared_payload_not_empty)
  have len: "logged_lengths P = Inr (length jd_text)"
    unfolding P_def by (rule logged_lengths_prepared)
  obtain fr fc where fl: "call_flowise_evaluation env
                          (py_or (PStr candidate_name) (PStr ''Unknown''))
                          (PStr candidate_email) (PStr candidate_phone)
                          (PStr gh) (PStr li) (PStr po) (PStr fb)
                          (dict_get response ''match_score'' (PInt 0)) = (fr, fc)"
    by (cases "call_flowise_evaluation env
                          (py_or (PStr candidate_name) (PStr ''Unknown''))
                          (PStr candidate_email) (PStr candidate_phone)
                          (PStr gh) (PStr li) (PStr po) (PStr fb)
                          (dict_get response ''match_score'' (PInt 0))") auto
  have R: "fst (call_ranking_api env P) = response" using c by simp
  have F1: "fst (call_flowise_evaluation env
                          (py_or (PStr candidate_name) (PStr ''Unknown''))
                          (PStr candidate_email) (PStr candidate_phone)
                          (PStr gh) (PStr li) (PStr po) (PStr fb)
                          (dict_get response ''match_score'' (PInt 0))) = fr"
    and F2: "snd (call_flowise_evaluation env
                          (py_or (PStr candidate_name) (PStr ''Unknown''))
                          (PStr candidate_email) (PStr candidate_phone)
                          (PStr gh) (PStr li) (PStr po) (PStr fb)
                          (dict_get response ''match_score'' (PInt 0))) = fc"
    using fl by simp_all
  show ?thesis
  proof (cases "save_arguments (AList.update ''flowise_evaluation'' (PDict fr) response) P fr")
    case (Inl e)
    have "execute_ranking rend env N P db
          = (Inr (b, s, d, AList.update ''flowise_evaluation'' (PDict fr) response,
                  format_flowise_output rend (AList.update ''flowise_evaluation'' (PDict fr) response) P),
             db, RankingRequest P # fc @ [])"
      unfolding execute_ranking_def
      using pne len c calls ne' f sp nm em ph fl Inl truthy_name_or_unknown [of candidate_name]
      by (simp add: Let_def bind_def)
    then show ?thesis unfolding R F1 F2 by (intro exI conjI, assumption, simp)
  next
    case (Inr args)
    have "execute_ranking rend env N P db
          = (Inr (b, s, d, AList.update ''flowise_evaluation'' (PDict fr) response,
                  format_flowise_output rend (AList.update ''flowise_evaluation'' (PDict fr) response) P),
             save_from_arguments N (clock env) args db,
             RankingRequest P # fc @ [SaveSearchResult args])"
      unfolding execute_ranking_def
      using pne len c calls ne' f sp nm em ph fl Inr truthy_name_or_unknown [of candidate_name]
      by (simp add: Let_def bind_def)
    then show ?thesis unfolding R F1 F2 by (intro exI conjI, assumption, simp)
  qed
qed

lemma execute_ranking_not_scored:
  fixes jd_text cv_text candidate_name candidate_id candidate_email candidate_phone gh li po fb ot
  defines "P \<equiv> prepare_payload jd_text cv_text candidate_name candidate_id candidate_email
                   candidate_phone gh li po fb ot"
  assumes er: "has_key (fst (call_ranking_api env P)) ''error''"
  shows "FlowiseEvaluation \<notin> set (snd (snd (execute_ranking rend env N P db)))"
proof -
  obtain response calls where c: "call_ranking_api env P = (response, calls)"
    by (cases "call_ranking_api env P") auto
  have calls: "calls = [RankingRequest P]"
    using call_ranking_api_prepared(1) [of env jd_text cv_text candidate_name candidate_id
        candidate_email candidate_phone gh li po fb ot] c
    unfolding P_def by simp
  have er': "has_key response ''error''" using er c by simp
  obtain b s d where f: "format_results rend response = (b, s, d)"
    by (cases "format_results rend response") auto
  have pne: "P \<noteq> []" unfolding P_def by (rule prepared_payload_not_empty)
  have len: "logged_lengths P = Inr (length jd_text)"
    unfolding P_def by (rule logged_lengths_prepared)
  show ?thesis
    unfolding execute_ranking_def
    using pne len c calls er' f by (simp add: Let_def split: sum.splits)
qed

subsection \<open>A failed social evaluation\<close>

text \<open>
  C3. When the request of the social evaluation fails (it raises a timeout or a transport
  error, or the status is not 200), both clients return the failure variant instead of
  raising, for every input. The pipeline that called them still completes:
  \<open>execute_ranking\<close>, on a payload of \<open>prepare_payload\<close> and a ranking result without an
  error, returns the ranking response with every entry as it was and the failure variant
  added under \<open>flowise_evaluation\<close>; \<open>rank_cv_with_social_and_flowise\<close>, for valid inputs
  and a ranking result that renders, returns the score and the recommendation of the
  result with the note that the social evaluation was skipped, and calls the save.
\<close>

theorem social_failure_is_contained:
  assumes fail: "request_failed (flowise_reply env)"
  shows
   "failure_variant (fst (call_flowise_evaluation env name_v email_v phone_v github_v linkedin_v
                            portfolio_v facebook_v score_v))
    \<and> (\<exists>message. fst (evaluate_with_flowise_via_be env question) = evaluation_failure message)
    \<and> (ranking_result (rank_reply env) = Some result \<and> \<not> has_key result ''error'' \<longrightarrow>
        (\<exists>baseline social delta failure html db' calls.
           execute_ranking rend env N
               (prepare_payload jd_text cv_text candidate_name candidate_id candidate_email
                  candidate_phone gh li po fb ot) db
             = (Inr (baseline, social, delta,
                     AList.update ''flowise_evaluation'' (PDict failure) result, html), db', calls)
           \<and> failure_variant failure))
    \<and> (strip candidate_name \<noteq> [] \<and> strip cv_text \<noteq> [] \<and> strip jd_text \<noteq> []
        \<and> ranking_result (rank_reply env) = Some result
        \<and> render_explanation rend result = Inr explanation
        \<and> (\<forall>rows. \<exists>h. render_history rend rows = Inr h) \<longrightarrow>
        (\<exists>social_display flowise_evaluation history_display db' calls.
           rank_cv_with_social_and_flowise rend env N jd_title jd_text cv_text candidate_name
               candidate_email candidate_phone gh li po fb ot evaluate_social db
             = ((dict_get result ''match_score'' (PInt 0),
                 dict_get result ''recommendation'' (PStr ''No recommendation''),
                 explanation, social_display, flowise_evaluation, history_display), db', calls)
           \<and> (evaluate_social
                \<and> social_profiles_of candidate_email candidate_phone gh li po fb ot \<noteq> [] \<longrightarrow>
                (\<exists>message. flowise_evaluation
                    = ''Flowise evaluation skipped: '' @ py_str rend message))
           \<and> (\<exists>args. last calls = SaveSearchResult args)))"
proof (intro conjI impI)
  show "failure_variant (fst (call_flowise_evaluation env name_v email_v phone_v github_v linkedin_v
                            portfolio_v facebook_v score_v))"
    using fail by (rule call_flowise_evaluation_failed)
  show "\<exists>message. fst (evaluate_with_flowise_via_be env question) = evaluation_failure message"
    using fail by (rule evaluate_with_flowise_failed)
next
  let ?P = "prepare_payload jd_text cv_text candidate_name candidate_id candidate_email
                  candidate_phone gh li po fb ot"
  assume a: "ranking_result (rank_reply env) = Some result \<and> \<not> has_key result ''error''"
  then have r: "fst (call_ranking_api env ?P) = result"
    using call_ranking_api_prepared(2) by blast
  then have ne: "\<not> has_key (fst (call_ranking_api env ?P)) ''error''" using a by simp
  let ?F = "call_flowise_evaluation env (py_or (PStr candidate_name) (PStr ''Unknown''))
               (PStr candidate_email) (PStr candidate_phone) (PStr gh) (PStr li) (PStr po) (PStr fb)
               (dict_get result ''match_score'' (PInt 0))"
  have fv: "failure_variant (fst ?F)" using fail by (rule call_flowise_evaluation_failed)
  from execute_ranking_scored [OF ne, of rend N db]
  show "\<exists>baseline social delta failure html db' calls.
           execute_ranking rend env N ?P db
             = (Inr (baseline, social, delta,
                     AList.update ''flowise_evaluation'' (PDict failure) result, html), db', calls)
           \<and> failure_variant failure"
    unfolding r using fv by blast
next
  let ?sp = "social_profiles_of candidate_email candidate_phone gh li po fb ot"
  assume a: "strip candidate_name \<noteq> [] \<and> strip cv_text \<noteq> [] \<and> strip jd_text \<noteq> []
        \<and> ranking_result (rank_reply env) = Some result
        \<and> render_explanation rend result = Inr explanation
        \<and> (\<forall>rows. \<exists>h. render_history rend rows = Inr h)"
  then obtain payload query_fields where
    g: "rank_cv_with_social_and_flowise rend env N jd_title jd_text cv_text candidate_name
               candidate_email candidate_phone gh li po fb ot evaluate_social db
         = (case evaluate_and_save rend env N jd_title candidate_name evaluate_social
                     ?sp query_fields result db of
                (out, db', calls) \<Rightarrow> (out, db', RankingRequest payload # calls))"
    using gdpr_scored [of candidate_name cv_text jd_text env result] by blast
  let ?E = "evaluate_social_profiles rend env evaluate_social ?sp query_fields explanation"
  have "\<exists>fe. fst ?E = Inr (explanation, PFloat 0, fe)
          \<and> (evaluate_social \<and> ?sp \<noteq> [] \<longrightarrow>
                (\<exists>message. fe = ''Flowise evaluation skipped: '' @ py_str rend message))"
  proof (cases "evaluate_social \<and> ?sp \<noteq> []")
    case True
    then show ?thesis
      using evaluate_social_profiles_failed [of evaluate_social ?sp env rend query_fields explanation]
        fail by auto
  next
    case False
    then show ?thesis
      using evaluate_social_profiles_skipped [of evaluate_social ?sp rend env query_fields explanation]
      by auto
  qed
  then obtain fe where fe: "fst ?E = Inr (explanation, PFloat 0, fe)"
    and skipped: "evaluate_social \<and> ?sp \<noteq> [] \<longrightarrow>
                (\<exists>message. fe = ''Flowise evaluation skipped: '' @ py_str rend message)"
    by blast
  from evaluate_and_save_completed [OF _ fe, of result N jd_title candidate_name db] a
  obtain social_display history_display db' where
    es: "evaluate_and_save rend env N jd_title candidate_name evaluate_social ?sp
               query_fields result db
           = ((dict_get result ''match_score'' (PInt 0),
               dict_get result ''recommendation'' (PStr ''No recommendation''),
               explanation, social_display, fe, history_display),
              db',
              snd ?E @ [SaveSearchResult [PStr candidate_name, PStr jd_title,
                    dict_get result ''match_score'' (PInt 0),
                    dict_get result ''recommendation'' (PStr ''No recommendation''),
                    PDict ?sp, PDict [(''presence_score'', PFloat 0)]]])"
    by blast
  show "\<exists>social_display flowise_evaluation history_display db' calls.
           rank_cv_with_social_and_flowise rend env N jd_title jd_text cv_text candidate_name
               candidate_email candidate_phone gh li po fb ot evaluate_social db
             = ((dict_get result ''match_score'' (PInt 0),
                 dict_get result ''recommendation'' (PStr ''No recommendation''),
                 explanation, social_display, flowise_evaluation, history_display), db', calls)
           \<and> (evaluate_social \<and> ?sp \<noteq> [] \<longrightarrow>
                (\<exists>message. flowise_evaluation
                    = ''Flowise evaluation skipped: '' @ py_str rend message))
           \<and> (\<exists>args. last calls = SaveSearchResult args)"
    unfolding g es using skipped by simp
qed

theorem social_failure_is_contained_witness:
  "request_failed (flowise_reply
      \<lparr>rank_reply = Response 200 ''{}'' (Inr [(''match_score'', PFloat (72 / 100))]),
       flowise_reply = Raises Timeout, clock = 1000, wall_clock = ''2026-01-01 10:00''\<rparr>)
   \<and> failure_variant (fst (call_flowise_evaluation
      \<lparr>rank_reply = Response 200 ''{}'' (Inr [(''match_score'', PFloat (72 / 100))]),
       flowise_reply = Raises Timeout, clock = 1000, wall_clock = ''2026-01-01 10:00''\<rparr>
      (PStr ''Jane Doe'') (PStr []) (PStr []) (PStr ''https://github.com/jane'') (PStr [])
      (PStr []) (PStr []) (PFloat (72 / 100))))
   \<and> fst (execute_ranking blank_rendering
      \<lparr>rank_reply = Response 200 ''{}'' (Inr [(''match_score'', PFloat (72 / 100))]),
       flowise_reply = Raises Timeout, clock = 1000, wall_clock = ''2026-01-01 10:00''\<rparr> 5
      (prepare_payload ''A job description of some length'' ''A curriculum vitae of some length''
         ''Jane Doe'' [] [] [] ''https://github.com/jane'' [] [] [] [])
      init_database)
     = Inr ([], [], [],
            [(''match_score'', PFloat (72 / 100)),
             (''flowise_evaluation'',
              PDict [(''error'', PStr ''Flowise timeout (300 seconds exceeded - Flowise may need more time for scraping)''),
                     (''success'', PBool False)])],
            [])"
proof -
  let ?env = "\<lparr>rank_reply = Response 200 ''{}'' (Inr [(''match_score'', PFloat (72 / 100))]),
       flowise_reply = Raises Timeout, clock = 1000, wall_clock = ''2026-01-01 10:00''\<rparr>"
  have h: "request_failed (flowise_reply ?env)" by simp
  have e: "fst (execute_ranking blank_rendering ?env 5
      (prepare_payload ''A job description of some length'' ''A curriculum vitae of some length''
         ''Jane Doe'' [] [] [] ''https://github.com/jane'' [] [] [] [])
      init_database)
     = Inr ([], [], [],
            [(''match_score'', PFloat (72 / 100)),
             (''flowise_evaluation'',
              PDict [(''error'', PStr ''Flowise timeout (300 seconds exceeded - Flowise may need more time for scraping)''),
                     (''success'', PBool False)])],
            [])"
    by code_simp
  have "failure_variant (fst (call_flowise_evaluation ?env
      (PStr ''Jane Doe'') (PStr []) (PStr []) (PStr ''https://github.com/jane'') (PStr [])
      (PStr []) (PStr []) (PFloat (72 / 100))))"
    by (rule social_failure_is_contained [OF h, THEN conjunct1])
  then show ?thesis using h e by simp
qed

subsection \<open>When the social evaluation runs\<close>

text \<open>
  C4, as the code has it. In \<open>rank_cv_with_social_and_flowise\<close> the social evaluation is
  called if and only if scoring succeeded, \<open>evaluate_social\<close> is set and the mapping of
  the given contact and link fields (email, phone and the five links) is not empty; when
  scoring succeeded and the step is skipped, the record is saved with the social
  evaluation \<open>{"presence_score": 0.0}\<close>. In \<open>execute_ranking\<close>, on a payload of
  \<open>prepare_payload\<close>, the social evaluation is called if and only if the ranking response
  holds no error, whatever the links.
\<close>

theorem social_step_condition:
  "(case rank_cv_with_social_and_flowise rend env N jd_title jd_description cv_text candidate_name
           email phone gh li po fb ot evaluate_social db of
      (out, db', calls) \<Rightarrow>
        (FlowiseEvaluation \<in> set calls \<longleftrightarrow>
           scoring_succeeded rend env candidate_name cv_text jd_description \<and> evaluate_social
           \<and> social_profiles_of email phone gh li po fb ot \<noteq> [])
        \<and> (scoring_succeeded rend env candidate_name cv_text jd_description
            \<and> \<not> (evaluate_social \<and> social_profiles_of email phone gh li po fb ot \<noteq> []) \<longrightarrow>
             (\<exists>match_score recommendation.
                last calls = SaveSearchResult
                  [PStr candidate_name, PStr jd_title, match_score, recommendation,
                   PDict (social_profiles_of email phone gh li po fb ot),
                   PDict [(''presence_score'', PFloat 0)]])))
   \<and> (case execute_ranking rend env N
              (prepare_payload jd_description cv_text candidate_name candidate_id email phone
                 gh li po fb ot) db of
        (out, db', calls) \<Rightarrow>
          (FlowiseEvaluation \<in> set calls \<longleftrightarrow>
             \<not> has_key (fst (call_ranking_api env
                   (prepare_payload jd_description cv_text candidate_name candidate_id email phone
                      gh li po fb ot))) ''error''))"
proof (intro conjI)
  let ?sp = "social_profiles_of email phone gh li po fb ot"
  let ?run = "rank_cv_with_social_and_flowise rend env N jd_title jd_description cv_text
                candidate_name email phone gh li po fb ot evaluate_social db"
  let ?ok = "scoring_succeeded rend env candidate_name cv_text jd_description"
  have main: "(FlowiseEvaluation \<in> set (snd (snd ?run)) \<longleftrightarrow> ?ok \<and> evaluate_social \<and> ?sp \<noteq> [])
        \<and> (?ok \<and> \<not> (evaluate_social \<and> ?sp \<noteq> []) \<longrightarrow>
             (\<exists>match_score recommendation.
                last (snd (snd ?run)) = SaveSearchResult
                  [PStr candidate_name, PStr jd_title, match_score, recommendation,
                   PDict ?sp, PDict [(''presence_score'', PFloat 0)]]))"
  proof (cases "strip candidate_name = [] \<or> strip cv_text = [] \<or> strip jd_description = []")
    case True
    then have "snd ?run = (db, [])" by (rule gdpr_invalid)
    moreover have "\<not> ?ok" using True by (auto simp: scoring_succeeded_def)
    ultimately show ?thesis by simp
  next
    case valid: False
    show ?thesis
    proof (cases "ranking_result (rank_reply env)")
      case None
      then obtain payload where "snd ?run = (db, [RankingRequest payload])"
        using gdpr_not_scored [of candidate_name cv_text jd_description env] valid by blast
      moreover have "\<not> ?ok" using None by (simp add: scoring_succeeded_def)
      ultimately show ?thesis by simp
    next
      case (Some result)
      then obtain payload query_fields where
        g: "?run = (case evaluate_and_save rend env N jd_title candidate_name evaluate_social
                     ?sp query_fields result db of
                (out, db', calls) \<Rightarrow> (out, db', RankingRequest payload # calls))"
        using gdpr_scored [of candidate_name cv_text jd_description env result] valid by blast
      let ?S = "evaluate_and_save rend env N jd_title candidate_name evaluate_social
                     ?sp query_fields result db"
      have calls: "snd (snd ?run) = RankingRequest payload # snd (snd ?S)"
        unfolding g by (simp add: case_prod_beta)
      show ?thesis
      proof (cases "render_explanation rend result")
        case (Inl e)
        then have "snd (snd ?S) = []" by (rule evaluate_and_save_no_explanation)
        moreover have "\<not> ?ok" using Some Inl by (simp add: scoring_succeeded_def)
        ultimately show ?thesis using calls by simp
      next
        case (Inr explanation)
        have ok: "?ok" using Some Inr valid by (simp add: scoring_succeeded_def)
        let ?E = "evaluate_social_profiles rend env evaluate_social ?sp query_fields explanation"
        obtain more where more: "snd (snd ?S) = snd ?E @ more" "FlowiseEvaluation \<notin> set more"
          using evaluate_and_save_calls [OF Inr] by blast
        have first: "FlowiseEvaluation \<in> set (snd (snd ?run)) \<longleftrightarrow> evaluate_social \<and> ?sp \<noteq> []"
          unfolding calls more(1) using more(2)
          by (simp add: evaluate_social_profiles_calls)
        have second: "\<exists>match_score recommendation.
                last (snd (snd ?run)) = SaveSearchResult
                  [PStr candidate_name, PStr jd_title, match_score, recommendation,
                   PDict ?sp, PDict [(''presence_score'', PFloat 0)]]"
          if "\<not> (evaluate_social \<and> ?sp \<noteq> [])"
        proof -
          have "?E = (Inr (explanation, PFloat 0, []), [])"
            using that by (rule evaluate_social_profiles_skipped)
          then have "snd (snd ?S) = [] @ [SaveSearchResult [PStr candidate_name, PStr jd_title,
                    dict_get result ''match_score'' (PInt 0),
                    dict_get result ''recommendation'' (PStr ''No recommendation''),
                    PDict ?sp, PDict [(''presence_score'', PFloat 0)]]]"
            using evaluate_and_save_saved [OF Inr] by blast
          then show ?thesis unfolding calls by simp
        qed
        show ?thesis using ok first second by blast
      qed
    qed
  qed
  then show "case ?run of
      (out, db', calls) \<Rightarrow>
        (FlowiseEvaluation \<in> set calls \<longleftrightarrow> ?ok \<and> evaluate_social \<and> ?sp \<noteq> [])
        \<and> (?ok \<and> \<not> (evaluate_social \<and> ?sp \<noteq> []) \<longrightarrow>
             (\<exists>match_score recommendation.
                last calls = SaveSearchResult
                  [PStr candidate_name, PStr jd_title, match_score, recommendation,
                   PDict ?sp, PDict [(''presence_score'', PFloat 0)]]))"
    by (simp add: case_prod_beta)
next
  let ?P = "prepare_payload jd_description cv_text candidate_name candidate_id email phone
                 gh li po fb ot"
  have "FlowiseEvaluation \<in> set (snd (snd (execute_ranking rend env N ?P db))) \<longleftrightarrow>
             \<not> has_key (fst (call_ranking_api env ?P)) ''error''"
  proof (cases "has_key (fst (call_ranking_api env ?P)) ''error''")
    case True
    then show ?thesis using execute_ranking_not_scored by blast
  next
    case False
    from execute_ranking_scored [OF False, of rend N db]
    obtain out db' more where
      "execute_ranking rend env N ?P db
         = (out, db', RankingRequest ?P #
                snd (call_flowise_evaluation env
                          (py_or (PStr candidate_name) (PStr ''Unknown''))
                          (PStr email) (PStr phone)
                          (PStr gh) (PStr li) (PStr po) (PStr fb)
                          (dict_get (fst (call_ranking_api env ?P)) ''match_score'' (PInt 0)))
                @ more)"
      by blast
    then show ?thesis using False call_flowise_evaluation_logged by simp
  qed
  then show "case execute_ranking rend env N ?P db of
        (out, db', calls) \<Rightarrow>
          (FlowiseEvaluation \<in> set calls \<longleftrightarrow>
             \<not> has_key (fst (call_ranking_api env ?P)) ''error'')"
    by (simp add: case_prod_beta)
qed

theorem social_step_condition_witness:
  "scoring_succeeded blank_rendering
      \<lparr>rank_reply = Response 200 ''{}'' (Inr [(''match_score'', PFloat (72 / 100))]),
       flowise_reply = Response 200 ''{}'' (Inr [(''success'', PBool True)]),
       clock = 1000, wall_clock = ''2026-01-01 10:00''\<rparr>
      ''Jane Doe'' ''A curriculum vitae of some length'' ''A job description of some length''
   \<and> social_profiles_of ''jane@example.org'' [] [] [] [] [] [] \<noteq> []
   \<and> FlowiseEvaluation \<in> set (snd (snd (rank_cv_with_social_and_flowise blank_rendering
      \<lparr>rank_reply = Response 200 ''{}'' (Inr [(''match_score'', PFloat (72 / 100))]),
       flowise_reply = Response 200 ''{}'' (Inr [(''success'', PBool True)]),
       clock = 1000, wall_clock = ''2026-01-01 10:00''\<rparr> 5
      ''Engineer'' ''A job description of some length'' ''A curriculum vitae of some length''
      ''Jane Doe'' ''jane@example.org'' [] [] [] [] [] [] True init_database)))"
proof -
  let ?env = "\<lparr>rank_reply = Response 200 ''{}'' (Inr [(''match_score'', PFloat (72 / 100))]),
       flowise_reply = Response 200 ''{}'' (Inr [(''success'', PBool True)]),
       clock = 1000, wall_clock = ''2026-01-01 10:00''\<rparr>"
  have h1: "scoring_succeeded blank_rendering ?env
      ''Jane Doe'' ''A curriculum vitae of some length'' ''A job description of some length''"
    by code_simp
  have h2: "social_profiles_of ''jane@example.org'' [] [] [] [] [] [] \<noteq> []" by code_simp
  from social_step_condition [where rend = blank_rendering and env = ?env and N = 5
      and jd_title = "''Engineer''" and jd_description = "''A job description of some length''"
      and cv_text = "''A curriculum vitae of some length''" and candidate_name = "''Jane Doe''"
      and email = "''jane@example.org''" and phone = "[]" and gh = "[]" and li = "[]"
      and po = "[]" and fb = "[]" and ot = "[]" and evaluate_social = True
      and db = init_database]
  have "FlowiseEvaluation \<in> set (snd (snd (rank_cv_with_social_and_flowise blank_rendering ?env 5
      ''Engineer'' ''A job description of some length'' ''A curriculum vitae of some length''
      ''Jane Doe'' ''jane@example.org'' [] [] [] [] [] [] True init_database)))"
    using h1 h2 by (simp add: case_prod_beta)
  then show ?thesis using h1 h2 by simp
qed

text \<open>
  With no link and no contact field given, \<open>execute_ranking\<close> still calls the social
  evaluation, and the record that \<open>rank_cv_with_social_and_flowise\<close> saves holds a social
  evaluation that is not null.
\<close>

theorem social_step_condition_counterexample:
  "social_profiles_of [] [] [] [] [] [] [] = []
   \<and> FlowiseEvaluation \<in> set (snd (snd (execute_ranking blank_rendering
      \<lparr>rank_reply = Response 200 ''{}'' (Inr [(''match_score'', PFloat (72 / 100))]),
       flowise_reply = Response 200 ''{}'' (Inr [(''success'', PBool True)]),
       clock = 1000, wall_clock = ''2026-01-01 10:00''\<rparr> 5
      (prepare_payload ''A job description of some length'' ''A curriculum vitae of some length''
         ''Jane Doe'' [] [] [] [] [] [] [] [])
      init_database)))
   \<and> map col_flowise_response (search_history (fst (snd (rank_cv_with_social_and_flowise
      blank_rendering
      \<lparr>rank_reply = Response 200 ''{}'' (Inr [(''match_score'', PFloat (72 / 100))]),
       flowise_reply = Response 200 ''{}'' (Inr [(''success'', PBool True)]),
       clock = 1000, wall_clock = ''2026-01-01 10:00''\<rparr> 5
      ''Engineer'' ''A job description of some length'' ''A curriculum vitae of some length''
      ''Jane Doe'' [] [] [] [] [] [] [] True init_database))))
     = [Some (PDict [(''presence_score'', PFloat 0)])]"
  by code_simp

end
